theory Spec2Isabelle
  imports Complex_Main "HOL-Library.Char_ord" "HOL-Library.List_Lexorder"
    "HOL-Library.Product_Lexorder"
begin

section \<open>The barbershop sales dashboard (src/app.py)\<close>

text \<open>
  The program reads the records of a spreadsheet into a pandas table, cleans it
  (\<open>load_sales_dataframe\<close>), restricts it to a period (\<open>filter_by_period\<close>),
  aggregates it (\<open>compute_summaries\<close>) and derives a few sentences from the aggregates
  (\<open>ai_insights\<close>). The embedding below follows the source line by line. What belongs to
  pandas and Python rather than to the repository is modelled as follows.
  \<^item> A table is a row count and a list of labelled columns; a label may occur twice.
  \<^item> A cell is a string, an integer, a float, a timestamp or the missing value
    (\<open>NaN\<close>, \<open>NaT\<close>). Floats are exact rationals: IEEE rounding is not modelled.
    Timestamps are nanoseconds since 1970-01-01, without a time zone.
  \<^item> Strings are ASCII.
  \<^item> What pandas decides by the dtype of a column is decided here by the cells of the
    column; on the tables \<open>load_sales_dataframe\<close> returns the two agree.
  \<^item> The parser behind \<open>pd.to_datetime\<close>, Python's rendering of a float or a timestamp
    as text and the \<open>{:.nf}\<close> formats are parameters (record \<open>library\<close>).
  \<^item> Every exception is a value of type \<open>error\<close>.
\<close>

subsection \<open>Python strings\<close>

definition is_space :: "char \<Rightarrow> bool" where
  \<comment> \<open>the ASCII characters \<open>str.strip()\<close> removes\<close>
  "is_space c = (c \<in> set [CHR 0x09, CHR 0x0A, CHR 0x0B, CHR 0x0C, CHR 0x0D,
                             CHR 0x1C, CHR 0x1D, CHR 0x1E, CHR 0x1F, CHR '' ''])"

definition strip :: "string \<Rightarrow> string" where
  "strip s = rev (dropWhile is_space (rev (dropWhile is_space s)))"

definition lowercase :: string where
  "lowercase = ''abcdefghijklmnopqrstuvwxyz''"

definition uppercase :: string where
  "uppercase = ''ABCDEFGHIJKLMNOPQRSTUVWXYZ''"

definition upper :: "char \<Rightarrow> char" where
  "upper c = (case map_of (zip lowercase uppercase) c of Some u \<Rightarrow> u | None \<Rightarrow> c)"

definition lower :: "char \<Rightarrow> char" where
  "lower c = (case map_of (zip uppercase lowercase) c of Some l \<Rightarrow> l | None \<Rightarrow> c)"

definition is_cased :: "char \<Rightarrow> bool" where
  "is_cased c = (c \<in> set lowercase \<or> c \<in> set uppercase)"

text \<open>
  \<open>str.title()\<close>: a letter that follows a letter is lowered, any other letter is
  raised; the flag says whether the previous character was a letter.
\<close>

fun title_from :: "bool \<Rightarrow> string \<Rightarrow> string" where
  "title_from prev [] = []"
| "title_from prev (c # cs) =
     (if is_cased c then (if prev then lower c else upper c) # title_from True cs
      else c # title_from False cs)"

definition title :: "string \<Rightarrow> string" where
  "title s = title_from False s"

definition is_digit :: "char \<Rightarrow> bool" where
  "is_digit c = (c \<in> set ''0123456789'')"

definition digit_value :: "char \<Rightarrow> nat" where
  "digit_value c = length (takeWhile (\<lambda>d. d \<noteq> c) ''0123456789'')"

definition digits_value :: "string \<Rightarrow> nat" where
  "digits_value ds = foldl (\<lambda>a d. 10 * a + digit_value d) 0 ds"

fun str_nat :: "nat \<Rightarrow> string" where
  "str_nat n =
     (if n < 10 then [''0123456789'' ! n]
      else str_nat (n div 10) @ [''0123456789'' ! (n mod 10)])"

definition str_int :: "int \<Rightarrow> string" where
  \<comment> \<open>\<open>str(i)\<close> of a Python int\<close>
  "str_int i = (if i < 0 then CHR ''-'' # str_nat (nat (- i)) else str_nat (nat i))"

subsection \<open>Cells, errors, the library's parameters\<close>

datatype cell = Str string | Integer int | Float rat | Timestamp int | NaN

datatype error = KeyError | ValueError | AttributeError | TypeError

text \<open>
  \<^item> \<open>to_datetime_at col i\<close>: row \<open>i\<close> of \<open>pd.to_datetime(col, errors="coerce")\<close>, \<open>None\<close>
    for \<open>NaT\<close>. The whole column is an argument since pandas infers the format from it.
  \<^item> \<open>py_str c\<close>: Python's \<open>str\<close> of a float or a timestamp.
  \<^item> \<open>fmt_f n comma x\<close>: \<open>x\<close> formatted with \<open>n\<close> fractional digits (\<open>{x:.nf}\<close>), with
    thousands separators when \<open>comma\<close> holds (\<open>{x:,.nf}\<close>).
\<close>

record library =
  to_datetime_at :: "cell list \<Rightarrow> nat \<Rightarrow> int option"
  py_str :: "cell \<Rightarrow> string"
  fmt_f :: "nat \<Rightarrow> bool \<Rightarrow> rat \<Rightarrow> string"

definition and_then :: "error + 'a \<Rightarrow> ('a \<Rightarrow> error + 'b) \<Rightarrow> error + 'b" where
  \<comment> \<open>sequencing: an exception ends the function\<close>
  "and_then r f = (case r of Inl e \<Rightarrow> Inl e | Inr x \<Rightarrow> f x)"

subsection \<open>Tables\<close>

record dataframe =
  nrows :: nat
  cols :: "(string \<times> cell list) list"

definition columns :: "dataframe \<Rightarrow> string list" where
  "columns df = map fst (cols df)"

definition df_empty :: "dataframe \<Rightarrow> bool" where
  \<comment> \<open>\<open>df.empty\<close>: no row or no column\<close>
  "df_empty df = (nrows df = 0 \<or> cols df = [])"

definition series :: "dataframe \<Rightarrow> string \<Rightarrow> cell list option" where
  \<comment> \<open>\<open>df[c]\<close> where it is a series: exactly one column carries the label\<close>
  "series df c = (case filter (\<lambda>(l, s). l = c) (cols df) of [(l, s)] \<Rightarrow> Some s | _ \<Rightarrow> None)"

definition setitem :: "dataframe \<Rightarrow> string \<Rightarrow> cell list \<Rightarrow> dataframe" where
  \<comment> \<open>\<open>df[c] = s\<close>: in place of the column, or as a new last column\<close>
  "setitem df c s =
     (if c \<in> set (columns df)
      then df\<lparr>cols := map (\<lambda>(l, old). if l = c then (l, s) else (l, old)) (cols df)\<rparr>
      else df\<lparr>cols := cols df @ [(c, s)]\<rparr>)"

definition set_columns :: "dataframe \<Rightarrow> (string \<Rightarrow> string) \<Rightarrow> dataframe" where
  \<comment> \<open>\<open>df.columns = [f(c) for c in df.columns]\<close>\<close>
  "set_columns df f = df\<lparr>cols := map (\<lambda>(l, s). (f l, s)) (cols df)\<rparr>"

definition drop_columns :: "dataframe \<Rightarrow> string \<Rightarrow> dataframe" where
  \<comment> \<open>\<open>df.drop(columns=[c])\<close>, for a label the table has\<close>
  "drop_columns df c = df\<lparr>cols := filter (\<lambda>(l, s). l \<noteq> c) (cols df)\<rparr>"

definition rename_columns :: "dataframe \<Rightarrow> string \<Rightarrow> string \<Rightarrow> dataframe" where
  \<comment> \<open>\<open>df.rename(columns={old: new})\<close>\<close>
  "rename_columns df old new = set_columns df (\<lambda>l. if l = old then new else l)"

definition select :: "bool list \<Rightarrow> 'a list \<Rightarrow> 'a list" where
  "select keep s = map snd (filter fst (zip keep s))"

definition loc :: "dataframe \<Rightarrow> bool list \<Rightarrow> dataframe" where
  \<comment> \<open>\<open>df.loc[mask]\<close>: the rows the mask keeps, of every column\<close>
  "loc df keep =
     \<lparr>nrows = length (filter id keep), cols = map (\<lambda>(l, s). (l, select keep s)) (cols df)\<rparr>"

definition notna_mask :: "nat \<Rightarrow> cell list list \<Rightarrow> bool list" where
  \<comment> \<open>per row: none of the given columns is missing there\<close>
  "notna_mask n ss = foldr (\<lambda>s m. map2 (\<and>) (map (\<lambda>c. c \<noteq> NaN) s) m) ss (replicate n True)"

definition dropna :: "dataframe \<Rightarrow> string list \<Rightarrow> error + dataframe" where
  \<comment> \<open>\<open>df.dropna(subset=labels)\<close>\<close>
  "dropna df labels =
     (if list_all (\<lambda>l. l \<in> set (columns df)) labels
      then Inr (loc df (notna_mask (nrows df)
                  (map snd (filter (\<lambda>(l, s). l \<in> set labels) (cols df)))))
      else Inl KeyError)"

subsection \<open>\<open>pd.DataFrame(data)\<close> for a list of records\<close>

definition first_seen :: "'a list \<Rightarrow> 'a list" where
  "first_seen xs = rev (remdups (rev xs))"

definition is_number :: "cell \<Rightarrow> bool" where
  "is_number c = (case c of Integer i \<Rightarrow> True | Float x \<Rightarrow> True | NaN \<Rightarrow> True | _ \<Rightarrow> False)"

definition is_integer :: "cell \<Rightarrow> bool" where
  "is_integer c = (case c of Integer i \<Rightarrow> True | _ \<Rightarrow> False)"

definition infer_column :: "cell list \<Rightarrow> cell list" where
  \<comment> \<open>a numeric column that holds a float or a missing value is a float column\<close>
  "infer_column s =
     (if list_all is_number s \<and> \<not> list_all is_integer s
      then map (\<lambda>c. case c of Integer i \<Rightarrow> Float (of_int i) | _ \<Rightarrow> c) s
      else s)"

definition DataFrame :: "(string \<times> cell) list list \<Rightarrow> dataframe" where
  \<comment> \<open>one row per record, one column per key in the order the keys are first seen;
      a key a record lacks is missing in its row\<close>
  "DataFrame data =
     \<lparr>nrows = length data,
      cols = map (\<lambda>l. (l, infer_column
                            (map (\<lambda>r. case map_of r l of Some v \<Rightarrow> v | None \<Rightarrow> NaN) data)))
                 (first_seen (concat (map (map fst) data)))\<rparr>"

subsection \<open>\<open>load_sales_dataframe\<close>\<close>

definition to_datetime :: "library \<Rightarrow> cell list \<Rightarrow> cell list" where
  "to_datetime L s =
     map (\<lambda>i. case to_datetime_at L s i of Some t \<Rightarrow> Timestamp t | None \<Rightarrow> NaN)
         [0..<length s]"

definition astype_str :: "library \<Rightarrow> cell \<Rightarrow> string" where
  \<comment> \<open>an element under \<open>.astype(str)\<close>\<close>
  "astype_str L c =
     (case c of Str s \<Rightarrow> s | Integer i \<Rightarrow> str_int i | NaN \<Rightarrow> ''nan'' | _ \<Rightarrow> py_str L c)"

definition keep_numeric_chars :: "string \<Rightarrow> string" where
  \<comment> \<open>\<open>.str.replace(r"[^0-9\.-]", "", regex=True)\<close>\<close>
  "keep_numeric_chars s = filter (\<lambda>c. is_digit c \<or> c = CHR ''.'' \<or> c = CHR ''-'') s"

text \<open>
  \<open>pd.to_numeric(..., errors="coerce")\<close> on a string of digits, dots and minus signs:
  an optional leading minus sign, digits, at most one dot, digits, with at least one
  digit in all; anything else is missing.
\<close>

definition to_numeric :: "string \<Rightarrow> cell" where
  "to_numeric s =
     (let negative = (case s of c # r \<Rightarrow> c = CHR ''-'' | [] \<Rightarrow> False);
          body = (if negative then tl s else s);
          whole = takeWhile is_digit body;
          rest = dropWhile is_digit body;
          dotted = (case rest of c # r \<Rightarrow> c = CHR ''.'' | [] \<Rightarrow> False);
          frac = (if dotted then takeWhile is_digit (tl rest) else []);
          left = (if dotted then dropWhile is_digit (tl rest) else rest);
          magnitude = of_nat (digits_value whole) + of_nat (digits_value frac) / 10 ^ length frac
      in if left = [] \<and> (whole \<noteq> [] \<or> frac \<noteq> [])
         then Float (if negative then - magnitude else magnitude)
         else NaN)"

definition normalize_columns :: "dataframe \<Rightarrow> dataframe" where
  \<comment> \<open>lines 31 to 37\<close>
  "normalize_columns df0 =
     (let df = set_columns df0 (\<lambda>c. title (strip c));
          df = (if ''Timestamp'' \<in> set (columns df) then drop_columns df ''Timestamp'' else df)
      in if ''Barber Name'' \<notin> set (columns df) \<and> ''Barber'' \<in> set (columns df)
         then rename_columns df ''Barber'' ''Barber Name''
         else df)"

definition parse_date :: "library \<Rightarrow> dataframe \<Rightarrow> error + dataframe" where
  \<comment> \<open>lines 40 to 43; a label on two columns makes \<open>df["Date"]\<close> a table, which
      \<open>pd.to_datetime\<close> refuses\<close>
  "parse_date L df =
     (if ''Date'' \<in> set (columns df)
      then (case series df ''Date'' of
              None \<Rightarrow> Inl ValueError
            | Some s \<Rightarrow> Inr (setitem df ''Date'' (to_datetime L s)))
      else Inr (setitem df ''Date'' (replicate (nrows df) NaN)))"

definition coerce_price :: "library \<Rightarrow> dataframe \<Rightarrow> error + dataframe" where
  \<comment> \<open>lines 46 to 52; a table has no \<open>.str\<close>\<close>
  "coerce_price L df =
     (if ''Price'' \<in> set (columns df)
      then (case series df ''Price'' of
              None \<Rightarrow> Inl AttributeError
            | Some s \<Rightarrow>
                Inr (setitem df ''Price''
                       (map (\<lambda>c. to_numeric (keep_numeric_chars (astype_str L c))) s)))
      else Inr (setitem df ''Price'' (replicate (nrows df) NaN)))"

definition normalize_text :: "library \<Rightarrow> string \<Rightarrow> dataframe \<Rightarrow> error + dataframe" where
  \<comment> \<open>lines 56 and 57, for one of the two labels\<close>
  "normalize_text L col df =
     (if col \<in> set (columns df)
      then (case series df col of
              None \<Rightarrow> Inl AttributeError
            | Some s \<Rightarrow> Inr (setitem df col (map (\<lambda>c. Str (strip (astype_str L c))) s)))
      else Inr df)"

definition before_dropna :: "library \<Rightarrow> dataframe \<Rightarrow> error + dataframe" where
  \<comment> \<open>lines 31 to 57: the table that reaches \<open>dropna\<close>\<close>
  "before_dropna L df =
     and_then (parse_date L (normalize_columns df)) (\<lambda>df.
     and_then (coerce_price L df) (\<lambda>df.
     and_then (normalize_text L ''Barber Name'' df) (\<lambda>df.
     normalize_text L ''Payment Method'' df)))"

definition load_sales_dataframe ::
  "library \<Rightarrow> (string \<times> cell) list list \<Rightarrow> error + dataframe" where
  \<comment> \<open>\<open>data\<close> is what \<open>worksheet.get_all_records()\<close> returned\<close>
  "load_sales_dataframe L data =
     (let df = DataFrame data in
      if df_empty df then Inr df
      else and_then (before_dropna L df) (\<lambda>df. dropna df [''Date'', ''Price'']))"

subsection \<open>\<open>filter_by_period\<close>\<close>

definition ns_per_day :: int where
  "ns_per_day = 86400000000000"

text \<open>
  The bounds reach \<open>filter_by_period\<close> as \<open>datetime.date\<close> values (\<open>st.date_input\<close> in
  \<open>main\<close>) or, by the signature, as \<open>datetime\<close> values; \<open>pd.to_datetime\<close> turns a date
  into the timestamp of its midnight.
\<close>

datatype pydatetime = PyDate int | PyDatetime int

fun pd_to_datetime :: "pydatetime \<Rightarrow> int" where
  "pd_to_datetime (PyDate d) = d * ns_per_day"
| "pd_to_datetime (PyDatetime t) = t"

definition is_datetime :: "cell \<Rightarrow> bool" where
  "is_datetime c = (case c of Timestamp t \<Rightarrow> True | NaN \<Rightarrow> True | _ \<Rightarrow> False)"

definition between :: "int \<Rightarrow> int \<Rightarrow> cell \<Rightarrow> bool" where
  \<comment> \<open>\<open>(x >= lo) & (x <= hi)\<close> for one cell; \<open>NaT\<close> compares false\<close>
  "between lo hi c = (case c of Timestamp t \<Rightarrow> lo \<le> t \<and> t \<le> hi | _ \<Rightarrow> False)"

definition filter_by_period ::
  "dataframe \<Rightarrow> string \<Rightarrow> pydatetime \<Rightarrow> pydatetime \<Rightarrow> error + dataframe" where
  "filter_by_period df mode start_date end_date =
     (if ''Date'' \<notin> set (columns df) then Inl KeyError
      else case series df ''Date'' of
             None \<Rightarrow> Inl ValueError
           | Some s \<Rightarrow>
               if list_all is_datetime s
               then Inr (loc df (map (between (pd_to_datetime start_date)
                                              (pd_to_datetime end_date)) s))
               else Inl TypeError)"

subsection \<open>\<open>compute_summaries\<close>\<close>

text \<open>
  The dictionary \<open>results\<close>: the keys \<open>by_barber\<close> and \<open>by_method\<close> may be absent. A grouped
  table is a list of rows (label, revenue, transactions).
\<close>

type_synonym grouped = "(cell \<times> rat \<times> nat) list"

record summaries =
  total_revenue :: rat
  num_transactions :: nat
  by_barber :: "grouped option"
  by_method :: "grouped option"
  by_day :: "(int \<times> rat) list"

definition number :: "cell \<Rightarrow> rat" where
  \<comment> \<open>the value a cell adds to a sum, which skips missing values\<close>
  "number c = (case c of Float x \<Rightarrow> x | Integer i \<Rightarrow> of_int i | _ \<Rightarrow> 0)"

definition cell_key :: "cell \<Rightarrow> nat \<times> rat \<times> string" where
  \<comment> \<open>the order of group labels: numbers by value, then strings by code point\<close>
  "cell_key c =
     (case c of Integer i \<Rightarrow> (0, of_int i, []) | Float x \<Rightarrow> (0, x, [])
        | Timestamp t \<Rightarrow> (0, of_int t, []) | Str s \<Rightarrow> (1, 0, s) | NaN \<Rightarrow> (2, 0, []))"

definition group_keys :: "'k list \<Rightarrow> ('k \<Rightarrow> 'o::linorder) \<Rightarrow> 'k list" where
  \<comment> \<open>the labels of \<open>groupby\<close>: each once, in ascending order\<close>
  "group_keys ks f = sort_key f (remdups ks)"

definition members :: "'k \<Rightarrow> ('k \<times> cell) list \<Rightarrow> cell list" where
  "members k rows = map snd (filter (\<lambda>(k', v). k' = k) rows)"

definition notna_rows :: "(cell \<times> cell) list \<Rightarrow> (cell \<times> cell) list" where
  \<comment> \<open>\<open>groupby\<close> leaves out the rows whose label is missing\<close>
  "notna_rows rows = filter (\<lambda>(k, v). k \<noteq> NaN) rows"

definition groupby_sum_count :: "cell list \<Rightarrow> cell list \<Rightarrow> grouped" where
  \<comment> \<open>\<open>df.groupby(label)["Price"].agg(["sum", "count"]).reset_index()\<close>\<close>
  "groupby_sum_count ks vs =
     (let rows = notna_rows (zip ks vs) in
      map (\<lambda>k. (k, sum_list (map number (members k rows)),
                    length (filter (\<lambda>v. v \<noteq> NaN) (members k rows))))
          (group_keys (map fst rows) cell_key))"

definition revenue :: "cell \<times> rat \<times> nat \<Rightarrow> rat" where
  "revenue g = fst (snd g)"

text \<open>
  \<open>sort_values("revenue", ascending=False)\<close>: pandas reverses the rows, sorts them by
  ascending revenue with NumPy's default sort and reverses the result. That sort is not
  stable: the order it gives to rows of equal revenue is not fixed. The model takes the
  order a stable sort gives, one of the orders the library may return, and no statement
  below rests on the order among rows of equal revenue. The same holds for
  \<open>sort_values_asc\<close> further down.
\<close>

definition sort_values_desc :: "grouped \<Rightarrow> grouped" where
  "sort_values_desc gs = rev (sort_key revenue (rev gs))"

definition is_numeric :: "cell \<Rightarrow> bool" where
  "is_numeric c = (case c of Float x \<Rightarrow> True | Integer i \<Rightarrow> True | NaN \<Rightarrow> True | _ \<Rightarrow> False)"

definition price_series :: "dataframe \<Rightarrow> error + cell list" where
  \<comment> \<open>\<open>df["Price"]\<close> where a numeric series is needed\<close>
  "price_series df =
     (if ''Price'' \<notin> set (columns df) then Inl KeyError
      else case series df ''Price'' of
             None \<Rightarrow> Inl TypeError
           | Some p \<Rightarrow> if list_all is_numeric p then Inr p else Inl TypeError)"

definition grouped_by :: "dataframe \<Rightarrow> string \<Rightarrow> error + grouped option" where
  \<comment> \<open>lines 73 to 76 and 78 to 81, for one of the two labels\<close>
  "grouped_by df label =
     (if label \<in> set (columns df)
      then (case series df label of
              None \<Rightarrow> Inl ValueError
            | Some ks \<Rightarrow>
                and_then (price_series df) (\<lambda>p.
                  Inr (Some (sort_values_desc (groupby_sum_count ks p)))))
      else Inr None)"

definition date_of :: "int \<Rightarrow> int" where
  \<comment> \<open>\<open>.dt.date\<close>: the day of a timestamp, in days since 1970-01-01\<close>
  "date_of t = t div ns_per_day"

definition datetime_series :: "dataframe \<Rightarrow> error + cell list" where
  \<comment> \<open>\<open>df["Date"]\<close> where \<open>.dt\<close> is taken of it\<close>
  "datetime_series df =
     (if ''Date'' \<notin> set (columns df) then Inl KeyError
      else case series df ''Date'' of
             None \<Rightarrow> Inl AttributeError
           | Some d \<Rightarrow> if list_all is_datetime d then Inr d else Inl AttributeError)"

definition day_rows :: "cell list \<Rightarrow> cell list \<Rightarrow> (int \<times> cell) list" where
  "day_rows d p = concat (map (\<lambda>(c, v). case c of Timestamp t \<Rightarrow> [(date_of t, v)] | _ \<Rightarrow> [])
                              (zip d p))"

definition groupby_day_sum :: "cell list \<Rightarrow> cell list \<Rightarrow> (int \<times> rat) list" where
  \<comment> \<open>\<open>df.groupby(df["Date"].dt.date)["Price"].sum().reset_index(name="revenue")\<close>\<close>
  "groupby_day_sum d p =
     (let rows = day_rows d p in
      map (\<lambda>k. (k, sum_list (map number (members k rows))))
          (group_keys (map fst rows) (\<lambda>k. k)))"

definition compute_summaries :: "dataframe \<Rightarrow> error + summaries" where
  "compute_summaries df =
     and_then (if \<not> df_empty df
               then and_then (price_series df) (\<lambda>p. Inr (sum_list (map number p)))
               else Inr 0) (\<lambda>total.
     and_then (grouped_by df ''Barber Name'') (\<lambda>barber.
     and_then (grouped_by df ''Payment Method'') (\<lambda>method.
     and_then (datetime_series df) (\<lambda>d.
     and_then (price_series df) (\<lambda>p.
       Inr \<lparr>total_revenue = total, num_transactions = nrows df,
            by_barber = barber, by_method = method,
            by_day = groupby_day_sum d p\<rparr>)))))"

subsection \<open>\<open>format_currency\<close> and \<open>ai_insights\<close>\<close>

definition format_currency :: "library \<Rightarrow> rat \<Rightarrow> string" where
  "format_currency L v = ''OMR '' @ fmt_f L 2 True v"

definition top_performer :: "library \<Rightarrow> summaries \<Rightarrow> string list" where
  \<comment> \<open>lines 98 to 102\<close>
  "top_performer L summaries =
     (case by_barber summaries of
        Some ((name, amount, n) # gs) \<Rightarrow>
          [''Top performer: '' @ astype_str L name @ '' with '' @ format_currency L amount
             @ '' across '' @ str_int (int n) @ '' cuts.'']
      | _ \<Rightarrow> [])"

definition cash_of :: "grouped \<Rightarrow> rat" where
  \<comment> \<open>\<open>methods["revenue"].get("Cash", 0)\<close>\<close>
  "cash_of gs = (case map_of gs (Str ''Cash'') of Some (amount, n) \<Rightarrow> amount | None \<Rightarrow> 0)"

definition card_of :: "grouped \<Rightarrow> rat" where
  \<comment> \<open>\<open>float(methods["revenue"].sum() - cash)\<close>\<close>
  "card_of gs = sum_list (map revenue gs) - cash_of gs"

definition cash_share_text :: "library \<Rightarrow> rat \<Rightarrow> rat \<Rightarrow> string" where
  \<comment> \<open>lines 109 and 110; \<open>other\<close> is the amount the source calls \<open>card\<close>\<close>
  "cash_share_text L cash other =
     (let share = (if cash + other \<noteq> 0 then (cash / (cash + other)) * 100 else 0)
      in ''Cash share: '' @ fmt_f L 1 False share @ ''% (Cash '' @ format_currency L cash
           @ '' vs Card '' @ format_currency L other @ '').'')"

definition cash_share :: "library \<Rightarrow> summaries \<Rightarrow> string list" where
  \<comment> \<open>lines 104 to 110\<close>
  "cash_share L summaries =
     (case by_method summaries of
        None \<Rightarrow> []
      | Some gs \<Rightarrow>
          if gs = [] then []
          else let cash = cash_of gs; card = card_of gs in
               if cash \<noteq> 0 \<or> card \<noteq> 0 then [cash_share_text L cash card] else [])"

definition day_names :: "string list" where
  "day_names = [''Monday'', ''Tuesday'', ''Wednesday'', ''Thursday'', ''Friday'',
                ''Saturday'', ''Sunday'']"

definition day_name :: "cell \<Rightarrow> cell" where
  \<comment> \<open>\<open>.dt.day_name()\<close> for one cell; 1970-01-01 was a Thursday\<close>
  "day_name c =
     (case c of Timestamp t \<Rightarrow> Str (day_names ! nat ((date_of t + 3) mod 7)) | _ \<Rightarrow> NaN)"

definition mean :: "cell list \<Rightarrow> rat option" where
  \<comment> \<open>the mean of the values present; \<open>None\<close> is NaN\<close>
  "mean vs =
     (let present = filter (\<lambda>v. v \<noteq> NaN) vs in
      if present = [] then None
      else Some (sum_list (map number present) / of_nat (length present)))"

definition groupby_mean :: "cell list \<Rightarrow> cell list \<Rightarrow> (cell \<times> rat option) list" where
  \<comment> \<open>\<open>df.groupby("dow")["Price"].mean()\<close>\<close>
  "groupby_mean ks vs =
     (let rows = notna_rows (zip ks vs) in
      map (\<lambda>k. (k, mean (members k rows))) (group_keys (map fst rows) cell_key))"

definition sort_values_asc :: "(cell \<times> rat option) list \<Rightarrow> (cell \<times> rat option) list" where
  \<comment> \<open>\<open>.sort_values()\<close>: ascending, NaN last; the order among equal means is not fixed\<close>
  "sort_values_asc ms =
     map (\<lambda>(k, x). (k, Some x))
         (sort_key snd (concat (map (\<lambda>(k, m). case m of Some x \<Rightarrow> [(k, x)] | None \<Rightarrow> []) ms)))
     @ filter (\<lambda>(k, m). m = None) ms"

definition dow_trend :: "library \<Rightarrow> (cell \<times> rat option) list \<Rightarrow> string list" where
  \<comment> \<open>lines 115 to 120\<close>
  "dow_trend L by_dow =
     (case by_dow of
        [] \<Rightarrow> []
      | (slowest, lo) # ms \<Rightarrow>
          (case last by_dow of
             (fastest, Some hi) \<Rightarrow>
               if hi > 0
               then [astype_str L slowest @ ''s are ''
                       @ (case lo of Some l \<Rightarrow> fmt_f L 0 False ((1 - l / hi) * 100)
                                   | None \<Rightarrow> ''nan'')
                       @ ''% slower than '' @ astype_str L fastest @ ''s on average.'']
               else []
           | (fastest, None) \<Rightarrow> []))"

text \<open>
  \<open>ai_insights\<close> assigns to a column of the table it is given, so the model returns the
  table as the call leaves it, next to the list of insights or the exception.
\<close>

definition ai_insights ::
  "library \<Rightarrow> dataframe \<Rightarrow> summaries \<Rightarrow> dataframe \<times> (error + string list)" where
  "ai_insights L df summaries =
     (if df_empty df then (df, Inr [''No data in the selected range.''])
      else let insights = top_performer L summaries @ cash_share L summaries in
           case datetime_series df of
             Inl e \<Rightarrow> (df, Inl e)
           | Inr d \<Rightarrow>
               let df = setitem df ''dow'' (map day_name d) in
               (case series df ''dow'' of
                  None \<Rightarrow> (df, Inl ValueError)
                | Some dow \<Rightarrow>
                    (case price_series df of
                       Inl e \<Rightarrow> (df, Inl e)
                     | Inr p \<Rightarrow>
                         (df, Inr (insights
                                   @ dow_trend L (sort_values_asc (groupby_mean dow p)))))))"

subsection \<open>Tables as objects\<close>

text \<open>
  The tables of a run are objects in a store, named by their position. \<open>.copy()\<close> makes
  a new object; the assignment in \<open>ai_insights\<close> changes the object it is given.
\<close>

type_synonym store = "dataframe list"

definition call_filter_by_period ::
  "store \<Rightarrow> nat \<Rightarrow> string \<Rightarrow> pydatetime \<Rightarrow> pydatetime \<Rightarrow> store \<times> (error + nat)" where
  "call_filter_by_period st r mode start_date end_date =
     (case filter_by_period (st ! r) mode start_date end_date of
        Inl e \<Rightarrow> (st, Inl e)
      | Inr df \<Rightarrow> (st @ [df], Inr (length st)))"

definition call_ai_insights ::
  "library \<Rightarrow> store \<Rightarrow> nat \<Rightarrow> summaries \<Rightarrow> store \<times> (error + string list)" where
  "call_ai_insights L st r summaries =
     (case ai_insights L (st ! r) summaries of (df, out) \<Rightarrow> (st[r := df], out))"

subsection \<open>A library for the examples\<close>

text \<open>
  An instance of the parameters, used where a statement is evaluated: it knows three
  date texts, and writes a number in fixed notation, rounding half to even (as Python
  does for a float that is the decimal number itself).
\<close>

definition round_half_even :: "rat \<Rightarrow> int" where
  "round_half_even x =
     (let f = \<lfloor>x\<rfloor>; d = x - of_int f in
      if d < 1 / 2 then f else if d > 1 / 2 then f + 1 else if even f then f else f + 1)"

function group3 :: "string \<Rightarrow> string" where
  "group3 ds =
     (if length ds \<le> 3 then ds
      else group3 (take (length ds - 3) ds) @ CHR '','' # drop (length ds - 3) ds)"
  by pat_completeness auto
termination
  by (relation "measure length") auto

definition format_fixed :: "nat \<Rightarrow> bool \<Rightarrow> rat \<Rightarrow> string" where
  "format_fixed n comma x =
     (let scaled = nat (round_half_even (\<bar>x\<bar> * 10 ^ n));
          whole = str_nat (scaled div 10 ^ n);
          frac = str_nat (scaled mod 10 ^ n)
      in (if x < 0 then ''-'' else [])
         @ (if comma then group3 whole else whole)
         @ (if n = 0 then [] else CHR ''.'' # replicate (n - length frac) CHR ''0'' @ frac))"

definition example_dates :: "(cell \<times> int) list" where
  "example_dates =
     [(Str ''7/1/2025'', 20270 * ns_per_day),
      (Str ''7/1/2025 14:30'', 20270 * ns_per_day + 52200000000000),
      (Str ''7/2/2025'', 20271 * ns_per_day)]"

definition example_library :: library where
  "example_library =
     \<lparr>to_datetime_at = (\<lambda>s i. case drop i s of c # cs \<Rightarrow> map_of example_dates c | [] \<Rightarrow> None),
      py_str = (\<lambda>c. case c of Float x \<Rightarrow> format_fixed 1 False x | _ \<Rightarrow> []),
      fmt_f = format_fixed\<rparr>"

subsection \<open>Predicates of tables\<close>

definition wf :: "dataframe \<Rightarrow> bool" where
  \<comment> \<open>every column has one cell per row\<close>
  "wf df = list_all (\<lambda>(l, s). length s = nrows df) (cols df)"

definition all_notna :: "dataframe \<Rightarrow> string \<Rightarrow> bool" where
  \<comment> \<open>every row of the table has a value under the label: the label names one column,
      with no missing cell; a table that lacks the column has no row\<close>
  "all_notna df c =
     (case series df c of Some s \<Rightarrow> length s = nrows df \<and> NaN \<notin> set s | None \<Rightarrow> nrows df = 0)"

definition is_timestamp :: "cell \<Rightarrow> bool" where
  "is_timestamp c = (case c of Timestamp t \<Rightarrow> True | _ \<Rightarrow> False)"





definition revenue_where :: "(cell \<Rightarrow> bool) \<Rightarrow> cell list \<Rightarrow> cell list \<Rightarrow> rat" where
  \<comment> \<open>the sum of the prices of the rows whose label satisfies \<open>P\<close>\<close>
  "revenue_where P ks vs = sum_list (map (\<lambda>(k, v). number v) (filter (\<lambda>(k, v). P k) (zip ks vs)))"

subsection \<open>The columns \<open>load_sales_dataframe\<close> assigns\<close>

text \<open>
  The values lines 41 and 43, lines 47 to 52 and line 57 assign, as functions of the
  table they read.
\<close>

definition date_column :: "library \<Rightarrow> dataframe \<Rightarrow> cell list" where
  "date_column L df =
     (case series df ''Date'' of Some s \<Rightarrow> to_datetime L s | None \<Rightarrow> replicate (nrows df) NaN)"

definition price_column :: "library \<Rightarrow> dataframe \<Rightarrow> cell list" where
  "price_column L df =
     (case series df ''Price'' of
        Some s \<Rightarrow> map (\<lambda>c. to_numeric (keep_numeric_chars (astype_str L c))) s
      | None \<Rightarrow> replicate (nrows df) NaN)"

definition text_cell :: "library \<Rightarrow> cell \<Rightarrow> cell" where
  "text_cell L c = Str (strip (astype_str L c))"

definition kept_rows :: "library \<Rightarrow> dataframe \<Rightarrow> bool list" where
  \<comment> \<open>the rows line 59 keeps: those with a date and a price\<close>
  "kept_rows L df =
     map2 (\<lambda>d p. d \<noteq> NaN \<and> p \<noteq> NaN) (date_column L df) (price_column L df)"

definition raw_prices :: "dataframe \<Rightarrow> cell list" where
  \<comment> \<open>the cells of the column \<open>Price\<close>, if the table has one\<close>
  "raw_prices df = (case series df ''Price'' of Some s \<Rightarrow> s | None \<Rightarrow> [])"

subsection \<open>Example records\<close>

definition example_rows :: "(string \<times> cell) list list" where
  "example_rows =
     [[(''Date'', Str ''7/1/2025''), (''Price'', Str ''$10.00''), (''Barber'', Str ''Sam''),
       (''Payment Method'', Str ''Cash'')],
      [(''Date'', Str ''7/1/2025''), (''Price'', Str ''15''), (''Barber Name'', Str ''Sam''),
       (''Payment Method'', Str ''Card'')],
      [(''Date'', Str ''7/2/2025''), (''Price'', Str ''abc''), (''Barber Name'', Str ''Sam''),
       (''Payment Method'', Str ''Card'')],
      [(''Date'', Str []), (''Price'', Str ''20''), (''Barber Name'', Str ''Sam''),
       (''Payment Method'', Str ''Card'')]]"

definition example_table :: dataframe where
  \<comment> \<open>what \<open>load_sales_dataframe\<close> makes of \<open>example_rows\<close>\<close>
  "example_table =
     \<lparr>nrows = 2,
      cols = [(''Date'', [Timestamp 1751328000000000000, Timestamp 1751328000000000000]),
              (''Price'', [Float 10, Float 15]),
              (''Barber'', [Str ''Sam'', NaN]),
              (''Payment Method'', [Str ''Cash'', Str ''Card'']),
              (''Barber Name'', [Str ''nan'', Str ''Sam''])]\<rparr>"

definition unnamed_rows :: "(string \<times> cell) list list" where
  \<comment> \<open>the first record has no barber\<close>
  "unnamed_rows =
     [[(''Date'', Str ''7/1/2025''), (''Price'', Str ''20''), (''Payment Method'', Str ''Cash'')],
      [(''Date'', Str ''7/1/2025''), (''Price'', Str ''15''), (''Barber Name'', Str ''Sam''),
       (''Payment Method'', Str ''Card'')]]"

definition unnamed_table :: dataframe where
  \<comment> \<open>what \<open>load_sales_dataframe\<close> makes of \<open>unnamed_rows\<close>\<close>
  "unnamed_table =
     \<lparr>nrows = 2,
      cols = [(''Date'', [Timestamp 1751328000000000000, Timestamp 1751328000000000000]),
              (''Price'', [Float 20, Float 15]),
              (''Payment Method'', [Str ''Cash'', Str ''Card'']),
              (''Barber Name'', [Str ''nan'', Str ''Sam''])]\<rparr>"

definition unnamed_summaries :: summaries where
  \<comment> \<open>what \<open>compute_summaries\<close> makes of \<open>unnamed_table\<close>\<close>
  "unnamed_summaries =
     \<lparr>total_revenue = 35, num_transactions = 2,
      by_barber = Some [(Str ''nan'', 20, 1), (Str ''Sam'', 15, 1)],
      by_method = Some [(Str ''Cash'', 20, 1), (Str ''Card'', 15, 1)],
      by_day = [(20270, 35)]\<rparr>"

definition afternoon_table :: dataframe where
  \<comment> \<open>one transaction, on 2025-07-01 at 14:30\<close>
  "afternoon_table =
     \<lparr>nrows = 1,
      cols = [(''Date'', [Timestamp (20270 * ns_per_day + 52200000000000)]),
              (''Price'', [Float 10])]\<rparr>"

definition example_summaries :: summaries where
  \<comment> \<open>what \<open>compute_summaries\<close> makes of \<open>example_table\<close>\<close>
  "example_summaries =
     \<lparr>total_revenue = 25, num_transactions = 2,
      by_barber = Some [(Str ''Sam'', 15, 1), (Str ''nan'', 10, 1)],
      by_method = Some [(Str ''Card'', 15, 1), (Str ''Cash'', 10, 1)],
      by_day = [(20270, 25)]\<rparr>"

definition ranked :: "grouped \<Rightarrow> bool" where
  \<comment> \<open>by descending revenue; no label twice\<close>
  "ranked g = (sorted_wrt (\<lambda>a b. revenue b \<le> revenue a) g \<and> distinct (map fst g))"

definition first_index :: "'a list \<Rightarrow> 'a \<Rightarrow> nat" where
  \<comment> \<open>the position at which a value is first seen\<close>
  "first_index xs x = length (takeWhile (\<lambda>y. y \<noteq> x) xs)"

definition first_seen_ranked :: "cell list \<Rightarrow> grouped \<Rightarrow> bool" where
  \<comment> \<open>the order the specification states: by descending revenue, groups of equal
      revenue in the order in which their labels are first seen in the column\<close>
  "first_seen_ranked ks g =
     sorted_wrt (\<lambda>a b. revenue b < revenue a \<or>
                       (revenue a = revenue b \<and>
                        first_index ks (fst a) < first_index ks (fst b))) g"

definition by_barber_first_seen :: "dataframe \<Rightarrow> bool" where
  \<comment> \<open>\<open>by_barber\<close> of the table's report is in that order\<close>
  "by_barber_first_seen df =
     (case series df ''Barber Name'' of
        None \<Rightarrow> False
      | Some ks \<Rightarrow>
          (case compute_summaries df of
             Inl e \<Rightarrow> False
           | Inr s \<Rightarrow> (case by_barber s of None \<Rightarrow> False | Some g \<Rightarrow> first_seen_ranked ks g)))"

definition tie_table :: dataframe where
  \<comment> \<open>two transactions of the same price; Zed's comes first\<close>
  "tie_table =
     \<lparr>nrows = 2,
      cols = [(''Date'', [Timestamp 1751328000000000000, Timestamp 1751328000000000000]),
              (''Price'', [Float 10, Float 10]),
              (''Barber Name'', [Str ''Zed'', Str ''Al''])]\<rparr>"

definition tie_table_swapped :: dataframe where
  \<comment> \<open>the same two transactions; Al's comes first\<close>
  "tie_table_swapped =
     \<lparr>nrows = 2,
      cols = [(''Date'', [Timestamp 1751328000000000000, Timestamp 1751328000000000000]),
              (''Price'', [Float 10, Float 10]),
              (''Barber Name'', [Str ''Al'', Str ''Zed''])]\<rparr>"


definition offset_table :: dataframe where
  \<comment> \<open>a payment in cash and a refund by card\<close>
  "offset_table =
     \<lparr>nrows = 2,
      cols = [(''Date'', [Timestamp 1751328000000000000, Timestamp 1751328000000000000]),
              (''Price'', [Float 5, Float (- 5)]),
              (''Payment Method'', [Str ''Cash'', Str ''Card''])]\<rparr>"

definition card_table :: dataframe where
  \<comment> \<open>every payment by card\<close>
  "card_table =
     \<lparr>nrows = 2,
      cols = [(''Date'', [Timestamp 1751328000000000000, Timestamp 1751328000000000000]),
              (''Price'', [Float 10, Float 15]),
              (''Payment Method'', [Str ''Card'', Str ''Card''])]\<rparr>"

definition card_summaries :: summaries where
  \<comment> \<open>what \<open>compute_summaries\<close> makes of \<open>card_table\<close>\<close>
  "card_summaries =
     \<lparr>total_revenue = 25, num_transactions = 2, by_barber = None,
      by_method = Some [(Str ''Card'', 25, 2)], by_day = [(20270, 25)]\<rparr>"

section \<open>Properties\<close>

subsection \<open>The empty table in \<open>ai_insights\<close>\<close>

text \<open>
  Claim C8. For the empty transaction table and any summary report, \<open>ai_insights\<close>
  returns the list that holds the one message "No data in the selected range." and
  nothing else: none of the three heuristics adds a sentence. The table is left as it
  was, and no exception is raised.
\<close>

theorem ai_insights_empty:
  assumes "df_empty df"
  shows "ai_insights L df summaries = (df, Inr [''No data in the selected range.''])"
  using assms by (simp add: ai_insights_def)

theorem ai_insights_empty_witness:
  "df_empty \<lparr>nrows = 0, cols = [(''Date'', []), (''Price'', [])]\<rparr> \<and>
   ai_insights example_library \<lparr>nrows = 0, cols = [(''Date'', []), (''Price'', [])]\<rparr>
     \<lparr>total_revenue = 0, num_transactions = 0, by_barber = None, by_method = Some [],
      by_day = []\<rparr>
   = (\<lparr>nrows = 0, cols = [(''Date'', []), (''Price'', [])]\<rparr>,
      Inr [''No data in the selected range.''])"
proof -
  have e: "df_empty \<lparr>nrows = 0, cols = [(''Date'', []), (''Price'', [])]\<rparr>"
    by (simp add: df_empty_def)
  show ?thesis
    using e ai_insights_empty [OF e] by simp
qed

subsection \<open>Tables: columns and row selection\<close>


lemma series_Some_iff:
  "series df c = Some s \<longleftrightarrow> filter (\<lambda>(l, s). l = c) (cols df) = [(c, s)]"
proof
  assume a: "series df c = Some s"
  then obtain l where f: "filter (\<lambda>(l, s). l = c) (cols df) = [(l, s)]"
    unfolding series_def by (auto split: list.splits prod.splits)
  then have "(l, s) \<in> set (filter (\<lambda>(l, s). l = c) (cols df))" by simp
  then have "l = c" by simp
  with f show "filter (\<lambda>(l, s). l = c) (cols df) = [(c, s)]" by simp
next
  assume "filter (\<lambda>(l, s). l = c) (cols df) = [(c, s)]"
  then show "series df c = Some s" by (simp add: series_def)
qed

lemma series_mem: "series df c = Some s \<Longrightarrow> (c, s) \<in> set (cols df)"
proof -
  assume "series df c = Some s"
  then have "(c, s) \<in> set (filter (\<lambda>(l, s). l = c) (cols df))"
    by (simp add: series_Some_iff)
  then show ?thesis by simp
qed

lemma series_in_columns: "series df c = Some s \<Longrightarrow> c \<in> set (columns df)"
  using series_mem [of df c s] by (force simp: columns_def)

lemma series_None_absent: "c \<notin> set (columns df) \<Longrightarrow> series df c = None"
  using series_in_columns [of df c] by (cases "series df c") auto

lemma wf_series_length: "wf df \<Longrightarrow> series df c = Some s \<Longrightarrow> length s = nrows df"
  by (auto simp: wf_def list_all_iff dest!: series_mem)

lemma filter_label_map:
  "filter (\<lambda>(l, s). l = c) (map (\<lambda>(l, old). if l = c then (l, new) else (l, old)) xs)
   = map (\<lambda>(l, old). (l, new)) (filter (\<lambda>(l, s). l = c) xs)"
  by (induction xs) auto

lemma filter_label_map_other:
  "c' \<noteq> c \<Longrightarrow>
   filter (\<lambda>(l, s). l = c') (map (\<lambda>(l, old). if l = c then (l, new) else (l, old)) xs)
   = filter (\<lambda>(l, s). l = c') xs"
  by (induction xs) (auto split: if_splits)

lemma filter_label_absent:
  "c \<notin> fst ` set xs \<Longrightarrow> filter (\<lambda>(l, s). l = c) xs = []"
  by (induction xs) auto

lemma series_setitem_same:
  assumes "c \<notin> set (columns df) \<or> series df c \<noteq> None"
  shows "series (setitem df c s) c = Some s"
proof (cases "c \<in> set (columns df)")
  case True
  with assms obtain old where "series df c = Some old" by auto
  then have "filter (\<lambda>(l, s). l = c) (cols df) = [(c, old)]" by (simp add: series_Some_iff)
  with True show ?thesis
    by (simp add: series_Some_iff setitem_def filter_label_map)
next
  case False
  then have "filter (\<lambda>(l, s). l = c) (cols df) = []"
    by (simp add: columns_def filter_label_absent)
  with False show ?thesis
    by (simp add: series_Some_iff setitem_def)
qed

lemma series_setitem_other:
  assumes "c' \<noteq> c"
  shows "series (setitem df c s) c' = series df c'"
  using assms by (simp add: series_def setitem_def filter_label_map_other)

lemma columns_setitem:
  "set (columns (setitem df c s)) = insert c (set (columns df))"
  by (auto simp: setitem_def columns_def split: if_splits) force+

lemma nrows_setitem [simp]: "nrows (setitem df c s) = nrows df"
  by (simp add: setitem_def)

lemma wf_setitem: "wf df \<Longrightarrow> length s = nrows df \<Longrightarrow> wf (setitem df c s)"
  by (auto simp: wf_def setitem_def list_all_iff split: if_splits)

lemma length_select:
  "length keep = length s \<Longrightarrow> length (select keep s) = length (filter id keep)"
  unfolding select_def by (induction keep s rule: list_induct2) auto

lemma select_map: "select keep (map f s) = map f (select keep s)"
  unfolding select_def
proof (induction keep arbitrary: s)
  case Nil
  then show ?case by simp
next
  case (Cons b keep)
  then show ?case by (cases s) auto
qed

lemma set_select:
  "x \<in> set (select keep s) \<longleftrightarrow> (True, x) \<in> set (zip keep s)"
  unfolding select_def by force

lemma set_select_subset: "set (select keep s) \<subseteq> set s"
  by (auto simp: set_select dest: set_zip_rightD)

lemma filter_label_relabel:
  "filter (\<lambda>(l, s). l = c) (map (\<lambda>(l, s). (l, g s)) xs)
   = map (\<lambda>(l, s). (l, g s)) (filter (\<lambda>(l, s). l = c) xs)"
  by (induction xs) auto

lemma series_loc: "series (loc df keep) c = map_option (select keep) (series df c)"
proof -
  have "filter (\<lambda>(l, s). l = c) (cols (loc df keep))
        = map (\<lambda>(l, s). (l, select keep s)) (filter (\<lambda>(l, s). l = c) (cols df))"
    by (simp add: loc_def filter_label_relabel)
  then show ?thesis
    unfolding series_def by (auto split: list.splits)
qed

lemma columns_loc [simp]: "columns (loc df keep) = columns df"
  by (auto simp: loc_def columns_def)

lemma nrows_loc [simp]: "nrows (loc df keep) = length (filter id keep)"
  by (simp add: loc_def)

lemma wf_loc: "wf df \<Longrightarrow> length keep = nrows df \<Longrightarrow> wf (loc df keep)"
  by (auto simp: wf_def loc_def list_all_iff length_select)

lemma length_notna_mask:
  "list_all (\<lambda>s. length s = n) ss \<Longrightarrow> length (notna_mask n ss) = n"
  unfolding notna_mask_def by (induction ss) auto

lemma nth_notna_mask:
  "list_all (\<lambda>s. length s = n) ss \<Longrightarrow> i < n \<Longrightarrow>
   notna_mask n ss ! i = (\<forall>s\<in>set ss. s ! i \<noteq> NaN)"
proof (induction ss)
  case Nil
  then show ?case by (simp add: notna_mask_def)
next
  case (Cons s ss)
  then have l: "length (notna_mask n ss) = n" by (simp add: length_notna_mask)
  have "notna_mask n (s # ss) = map2 (\<and>) (map (\<lambda>c. c \<noteq> NaN) s) (notna_mask n ss)"
    by (simp add: notna_mask_def)
  with Cons l show ?case by simp
qed

lemma notna_mask_sound:
  assumes "list_all (\<lambda>s. length s = n) ss" "s \<in> set ss"
  shows "NaN \<notin> set (select (notna_mask n ss) s)"
proof
  assume "NaN \<in> set (select (notna_mask n ss) s)"
  then have "(True, NaN) \<in> set (zip (notna_mask n ss) s)" by (simp add: set_select)
  then obtain i where i: "i < length (notna_mask n ss)" "i < length s"
    "notna_mask n ss ! i = True" "s ! i = NaN"
    by (auto simp: set_zip)
  from assms i(1) have "i < n" by (simp add: length_notna_mask)
  with assms i(3) have "s ! i \<noteq> NaN" by (simp add: nth_notna_mask)
  with i(4) show False by simp
qed

lemma wf_cols_lengths:
  "wf df \<Longrightarrow> list_all (\<lambda>s. length s = nrows df) (map snd (filter P (cols df)))"
  by (auto simp: wf_def list_all_iff)

lemma dropna_Inr:
  "dropna df labels = Inr df' \<Longrightarrow>
   df' = loc df (notna_mask (nrows df) (map snd (filter (\<lambda>(l, s). l \<in> set labels) (cols df))))"
  by (auto simp: dropna_def split: if_splits)

lemma dropna_returns:
  "set labels \<subseteq> set (columns df) \<Longrightarrow> \<exists>df'. dropna df labels = Inr df'"
  by (auto simp: dropna_def list_all_iff)

lemma dropna_all_notna:
  assumes "wf df" "dropna df labels = Inr df'" "c \<in> set labels" "series df c = Some s"
  shows "all_notna df' c"
proof -
  let ?ss = "map snd (filter (\<lambda>(l, s). l \<in> set labels) (cols df))"
  let ?m = "notna_mask (nrows df) ?ss"
  from assms(2) have df': "df' = loc df ?m" by (rule dropna_Inr)
  from assms(1) have ls: "list_all (\<lambda>s. length s = nrows df) ?ss" by (rule wf_cols_lengths)
  from assms(4) have "(c, s) \<in> set (cols df)" by (rule series_mem)
  with assms(3) have mem: "s \<in> set ?ss" by force
  from assms(1,4) have "length s = nrows df" by (rule wf_series_length)
  with ls have "length (select ?m s) = length (filter id ?m)"
    by (simp add: length_select length_notna_mask)
  moreover from ls mem have "NaN \<notin> set (select ?m s)" by (rule notna_mask_sound)
  ultimately show ?thesis
    using assms(4) by (simp add: all_notna_def df' series_loc)
qed

lemma wf_dropna: "wf df \<Longrightarrow> dropna df labels = Inr df' \<Longrightarrow> wf df'"
  by (auto dest!: dropna_Inr intro!: wf_loc simp: length_notna_mask wf_cols_lengths)

lemma length_infer_column [simp]: "length (infer_column s) = length s"
  by (simp add: infer_column_def)

lemma wf_DataFrame: "wf (DataFrame data)"
  by (simp add: wf_def DataFrame_def list_all_iff)

lemma nrows_DataFrame [simp]: "nrows (DataFrame data) = length data"
  by (simp add: DataFrame_def)

lemma wf_set_columns: "wf df \<Longrightarrow> wf (set_columns df f)"
  by (auto simp: wf_def set_columns_def list_all_iff)

lemma wf_drop_columns: "wf df \<Longrightarrow> wf (drop_columns df c)"
  by (auto simp: wf_def drop_columns_def list_all_iff)

lemma wf_normalize_columns: "wf df \<Longrightarrow> wf (normalize_columns df)"
  by (simp add: normalize_columns_def Let_def rename_columns_def wf_set_columns wf_drop_columns)

lemma nrows_normalize_columns [simp]: "nrows (normalize_columns df) = nrows df"
  by (simp add: normalize_columns_def Let_def rename_columns_def set_columns_def drop_columns_def)

lemma length_to_datetime [simp]: "length (to_datetime L s) = length s"
  by (simp add: to_datetime_def)

lemma to_datetime_cells: "c \<in> set (to_datetime L s) \<Longrightarrow> c = NaN \<or> is_timestamp c"
  by (auto simp: to_datetime_def is_timestamp_def split: option.splits)

lemma parse_date_Inr:
  assumes "parse_date L df = Inr df1"
  shows "df1 = setitem df ''Date'' (date_column L df)"
    and "''Date'' \<notin> set (columns df) \<or> series df ''Date'' \<noteq> None"
  using assms series_None_absent [of "''Date''" df]
  by (auto simp: parse_date_def date_column_def split: if_splits option.splits)

lemma coerce_price_Inr:
  assumes "coerce_price L df = Inr df1"
  shows "df1 = setitem df ''Price'' (price_column L df)"
    and "''Price'' \<notin> set (columns df) \<or> series df ''Price'' \<noteq> None"
  using assms series_None_absent [of "''Price''" df]
  by (auto simp: coerce_price_def price_column_def split: if_splits option.splits)

lemma normalize_text_Inr:
  assumes "normalize_text L col df = Inr df1"
  shows "series df1 col = map_option (map (\<lambda>c. Str (strip (astype_str L c)))) (series df col)"
    and "c \<noteq> col \<Longrightarrow> series df1 c = series df c"
    and "set (columns df1) = set (columns df)"
    and "nrows df1 = nrows df"
    and "wf df \<Longrightarrow> wf df1"
    and "col \<in> set (columns df) \<Longrightarrow> series df col \<noteq> None"
proof -
  show "series df1 col = map_option (map (\<lambda>c. Str (strip (astype_str L c)))) (series df col)"
    using assms series_None_absent [of col df]
    by (auto simp: normalize_text_def series_setitem_same split: if_splits option.splits)
  show "c \<noteq> col \<Longrightarrow> series df1 c = series df c"
    using assms
    by (auto simp: normalize_text_def series_setitem_other split: if_splits option.splits)
  show "set (columns df1) = set (columns df)"
    using assms
    by (auto simp: normalize_text_def columns_setitem split: if_splits option.splits)
  show "nrows df1 = nrows df"
    using assms by (auto simp: normalize_text_def split: if_splits option.splits)
  show "wf df \<Longrightarrow> wf df1"
    using assms
    by (auto simp: normalize_text_def wf_setitem wf_series_length split: if_splits option.splits)
  show "col \<in> set (columns df) \<Longrightarrow> series df col \<noteq> None"
    using assms by (auto simp: normalize_text_def split: if_splits option.splits)
qed

lemma length_date_column: "wf df \<Longrightarrow> length (date_column L df) = nrows df"
  by (auto simp: date_column_def wf_series_length split: option.splits)

lemma length_price_column: "wf df \<Longrightarrow> length (price_column L df) = nrows df"
  by (auto simp: price_column_def wf_series_length split: option.splits)

lemma and_then_Inr: "and_then r f = Inr y \<longleftrightarrow> (\<exists>x. r = Inr x \<and> f x = Inr y)"
  by (cases r) (auto simp: and_then_def)

lemma and_then_Inl: "and_then r f = Inl e \<longleftrightarrow> r = Inl e \<or> (\<exists>x. r = Inr x \<and> f x = Inl e)"
  by (cases r) (auto simp: and_then_def)

lemma price_column_setitem_Date:
  "price_column L (setitem df ''Date'' d) = price_column L df"
  by (simp add: price_column_def series_setitem_other split: option.splits)

lemma before_dropna_Inr:
  assumes b: "before_dropna L df0 = Inr df'" and w: "wf df0"
  shows "wf df'"
    and "nrows df' = nrows df0"
    and "series df' ''Date'' = Some (date_column L (normalize_columns df0))"
    and "series df' ''Price'' = Some (price_column L (normalize_columns df0))"
    and "series df' ''Barber Name''
         = map_option (map (text_cell L)) (series (normalize_columns df0) ''Barber Name'')"
    and "series df' ''Payment Method''
         = map_option (map (text_cell L)) (series (normalize_columns df0) ''Payment Method'')"
    and "set (columns df')
         = insert ''Date'' (insert ''Price'' (set (columns (normalize_columns df0))))"
proof -
  let ?n = "normalize_columns df0"
  from b obtain df1 df2 df3 where
    1: "parse_date L ?n = Inr df1" and
    2: "coerce_price L df1 = Inr df2" and
    3: "normalize_text L ''Barber Name'' df2 = Inr df3" and
    4: "normalize_text L ''Payment Method'' df3 = Inr df'"
    by (auto simp: before_dropna_def and_then_Inr)
  have wn: "wf ?n" using w by (rule wf_normalize_columns)
  have df1: "df1 = setitem ?n ''Date'' (date_column L ?n)"
    and u1: "''Date'' \<notin> set (columns ?n) \<or> series ?n ''Date'' \<noteq> None"
    using parse_date_Inr [OF 1] by auto
  have df2: "df2 = setitem df1 ''Price'' (price_column L ?n)"
    and u2: "''Price'' \<notin> set (columns df1) \<or> series df1 ''Price'' \<noteq> None"
    using coerce_price_Inr [OF 2] by (auto simp: df1 price_column_setitem_Date)
  have w1: "wf df1" unfolding df1 using wn by (simp add: wf_setitem length_date_column)
  have w2: "wf df2" unfolding df2 using w1 wn
    by (simp add: wf_setitem length_price_column df1)
  have w3: "wf df3" using normalize_text_Inr(5) [OF 3] w2 by simp
  show "wf df'" using normalize_text_Inr(5) [OF 4] w3 by simp
  show "nrows df' = nrows df0"
    using normalize_text_Inr(4) [OF 4] normalize_text_Inr(4) [OF 3] by (simp add: df2 df1)
  have d1: "series df1 ''Date'' = Some (date_column L ?n)"
    unfolding df1 using u1 by (rule series_setitem_same)
  have "series df' ''Date'' = series df2 ''Date''"
    using normalize_text_Inr(2) [OF 4, of "''Date''"] normalize_text_Inr(2) [OF 3, of "''Date''"]
    by simp
  then show "series df' ''Date'' = Some (date_column L ?n)"
    using d1 by (simp add: df2 series_setitem_other)
  have p2: "series df2 ''Price'' = Some (price_column L ?n)"
    unfolding df2 using u2 by (rule series_setitem_same)
  have "series df' ''Price'' = series df2 ''Price''"
    using normalize_text_Inr(2) [OF 4, of "''Price''"] normalize_text_Inr(2) [OF 3, of "''Price''"]
    by simp
  then show "series df' ''Price'' = Some (price_column L ?n)"
    using p2 by simp
  have "series df' ''Barber Name'' = series df3 ''Barber Name''"
    using normalize_text_Inr(2) [OF 4, of "''Barber Name''"] by simp
  also have "\<dots> = map_option (map (text_cell L)) (series df2 ''Barber Name'')"
    using normalize_text_Inr(1) [OF 3] by (simp add: text_cell_def [abs_def])
  also have "series df2 ''Barber Name'' = series ?n ''Barber Name''"
    by (simp add: df2 df1 series_setitem_other)
  finally show "series df' ''Barber Name''
      = map_option (map (text_cell L)) (series ?n ''Barber Name'')" .
  have "series df' ''Payment Method''
        = map_option (map (text_cell L)) (series df3 ''Payment Method'')"
    using normalize_text_Inr(1) [OF 4] by (simp add: text_cell_def [abs_def])
  also have "series df3 ''Payment Method'' = series df2 ''Payment Method''"
    using normalize_text_Inr(2) [OF 3, of "''Payment Method''"] by simp
  also have "\<dots> = series ?n ''Payment Method''"
    by (simp add: df2 df1 series_setitem_other)
  finally show "series df' ''Payment Method''
      = map_option (map (text_cell L)) (series ?n ''Payment Method'')" .
  show "set (columns df') = insert ''Date'' (insert ''Price'' (set (columns ?n)))"
    using normalize_text_Inr(3) [OF 4] normalize_text_Inr(3) [OF 3]
    by (auto simp: df2 df1 columns_setitem)
qed

subsection \<open>\<open>load_sales_dataframe\<close>: the rows that are kept\<close>

lemma first_seen_Nil_iff: "first_seen xs = [] \<longleftrightarrow> xs = []"
  by (simp add: first_seen_def)

lemma DataFrame_not_empty:
  assumes "concat data \<noteq> []"
  shows "\<not> df_empty (DataFrame data)"
proof -
  from assms obtain r where "r \<in> set data" "r \<noteq> []" by auto
  then have "concat (map (map fst) data) \<noteq> []" by auto
  moreover from assms have "data \<noteq> []" by auto
  ultimately show ?thesis
    by (simp add: df_empty_def DataFrame_def first_seen_Nil_iff)
qed

lemma load_sales_dataframe_Inr:
  assumes "\<not> df_empty (DataFrame data)" "load_sales_dataframe L data = Inr df"
  shows "\<exists>df'. before_dropna L (DataFrame data) = Inr df' \<and>
               dropna df' [''Date'', ''Price''] = Inr df"
  using assms by (simp add: load_sales_dataframe_def and_then_Inr)

lemma before_dropna_dropna_returns:
  assumes "before_dropna L (DataFrame data) = Inr df'"
  shows "\<exists>df. dropna df' [''Date'', ''Price''] = Inr df"
proof -
  have "set [''Date'', ''Price''] \<subseteq> set (columns df')"
    using before_dropna_Inr(7) [OF assms wf_DataFrame] by simp
  then show ?thesis by (rule dropna_returns)
qed

text \<open>
  Claim C1, as amended. For every sequence of raw records that is empty or in which some
  record has a key, every row of the table \<open>load_sales_dataframe\<close> returns has a date
  and a price that are not missing: \<open>dropna\<close> drops the rows in which either is missing
  after parsing. Whenever the steps before it return a table, \<open>dropna\<close> returns one too:
  the filtering step raises nothing.
\<close>

theorem load_sales_dataframe_rows_valid:
  assumes "data = [] \<or> concat data \<noteq> []"
  shows "(\<forall>df. load_sales_dataframe L data = Inr df \<longrightarrow>
            all_notna df ''Date'' \<and> all_notna df ''Price'') \<and>
         (\<forall>df'. before_dropna L (DataFrame data) = Inr df' \<longrightarrow>
            (\<exists>df. dropna df' [''Date'', ''Price''] = Inr df))"
proof (intro conjI allI impI)
  fix df
  assume l: "load_sales_dataframe L data = Inr df"
  show "all_notna df ''Date''" "all_notna df ''Price''"
  proof -
    consider "data = []" | "concat data \<noteq> []" using assms by blast
    then have "all_notna df ''Date'' \<and> all_notna df ''Price''"
    proof cases
      case 1
      with l have "df = \<lparr>nrows = 0, cols = []\<rparr>"
        by (simp add: load_sales_dataframe_def DataFrame_def first_seen_def df_empty_def)
      then show ?thesis by (simp add: all_notna_def series_def)
    next
      case 2
      then have "\<not> df_empty (DataFrame data)" by (rule DataFrame_not_empty)
      from load_sales_dataframe_Inr [OF this l] obtain df' where
        b: "before_dropna L (DataFrame data) = Inr df'" and
        d: "dropna df' [''Date'', ''Price''] = Inr df" by blast
      note f = before_dropna_Inr [OF b wf_DataFrame]
      have "all_notna df ''Date''"
        using f(1) d _ f(3) by (rule dropna_all_notna) simp
      moreover have "all_notna df ''Price''"
        using f(1) d _ f(4) by (rule dropna_all_notna) simp
      ultimately show ?thesis ..
    qed
    then show "all_notna df ''Date''" "all_notna df ''Price''" by simp_all
  qed
next
  fix df'
  assume "before_dropna L (DataFrame data) = Inr df'"
  then show "\<exists>df. dropna df' [''Date'', ''Price''] = Inr df"
    by (rule before_dropna_dropna_returns)
qed

theorem load_sales_dataframe_rows_valid_witness:
  "concat example_rows \<noteq> [] \<and>
   load_sales_dataframe example_library example_rows = Inr example_table \<and>
   all_notna example_table ''Date'' \<and> all_notna example_table ''Price''"
proof -
  have h: "example_rows = [] \<or> concat example_rows \<noteq> []"
    by (simp add: example_rows_def)
  have e: "load_sales_dataframe example_library example_rows = Inr example_table"
    by code_simp
  have c: "concat example_rows \<noteq> []"
    by (simp add: example_rows_def)
  from load_sales_dataframe_rows_valid [OF h, of example_library] e c
  show ?thesis by blast
qed

text \<open>
  The claim as stated, for every sequence of raw records, fails on the sequence that
  holds one record without keys: its table has a row and no column, \<open>df.empty\<close> holds,
  and line 28 returns the table as it is, with a row that has no date and no price.
\<close>

theorem load_sales_dataframe_rows_valid_counterexample:
  "load_sales_dataframe example_library [[]] = Inr \<lparr>nrows = 1, cols = []\<rparr> \<and>
   \<not> all_notna \<lparr>nrows = 1, cols = []\<rparr> ''Date'' \<and>
   \<not> all_notna \<lparr>nrows = 1, cols = []\<rparr> ''Price''"
  by code_simp

subsection \<open>\<open>load_sales_dataframe\<close>: the prices that are kept\<close>

lemma series_unique: "series df c = Some s \<Longrightarrow> (c, s') \<in> set (cols df) \<Longrightarrow> s' = s"
proof -
  assume a: "series df c = Some s" and b: "(c, s') \<in> set (cols df)"
  from b have "(c, s') \<in> set (filter (\<lambda>(l, s). l = c) (cols df))" by simp
  with a show "s' = s" by (simp add: series_Some_iff)
qed

lemma notna_mask_two:
  assumes w: "wf df" and d: "series df a = Some x" and p: "series df b = Some y"
  shows "notna_mask (nrows df) (map snd (filter (\<lambda>(l, s). l \<in> set [a, b]) (cols df)))
         = map2 (\<lambda>d p. d \<noteq> NaN \<and> p \<noteq> NaN) x y"
proof (rule nth_equalityI)
  let ?ss = "map snd (filter (\<lambda>(l, s). l \<in> set [a, b]) (cols df))"
  have ls: "list_all (\<lambda>s. length s = nrows df) ?ss" using w by (rule wf_cols_lengths)
  have lx: "length x = nrows df" and ly: "length y = nrows df"
    using w d p by (auto dest: wf_series_length)
  have set: "set ?ss = {x, y}"
  proof
    show "set ?ss \<subseteq> {x, y}"
      using series_unique [OF d] series_unique [OF p] by auto
    show "{x, y} \<subseteq> set ?ss"
      using series_mem [OF d] series_mem [OF p] by force
  qed
  show "length (notna_mask (nrows df) ?ss) = length (map2 (\<lambda>d p. d \<noteq> NaN \<and> p \<noteq> NaN) x y)"
    using ls lx ly by (simp add: length_notna_mask)
  fix i assume "i < length (notna_mask (nrows df) ?ss)"
  then have i: "i < nrows df" using ls by (simp add: length_notna_mask)
  have "notna_mask (nrows df) ?ss ! i = (\<forall>s\<in>set ?ss. s ! i \<noteq> NaN)"
    using ls i by (rule nth_notna_mask)
  also have "\<dots> = (x ! i \<noteq> NaN \<and> y ! i \<noteq> NaN)"
    unfolding set by simp
  also have "\<dots> = map2 (\<lambda>d p. d \<noteq> NaN \<and> p \<noteq> NaN) x y ! i"
    using i lx ly by simp
  finally show "notna_mask (nrows df) ?ss ! i = map2 (\<lambda>d p. d \<noteq> NaN \<and> p \<noteq> NaN) x y ! i" .
qed

lemma df_empty_DataFrame: "df_empty (DataFrame data) \<Longrightarrow> cols (DataFrame data) = []"
  by (cases data) (auto simp: df_empty_def DataFrame_def first_seen_def)

lemma load_sales_dataframe_loc:
  assumes "\<not> df_empty (DataFrame data)" "load_sales_dataframe L data = Inr df"
  shows "\<exists>df'. before_dropna L (DataFrame data) = Inr df' \<and>
               df = loc df' (kept_rows L (normalize_columns (DataFrame data)))"
proof -
  from load_sales_dataframe_Inr [OF assms] obtain df' where
    b: "before_dropna L (DataFrame data) = Inr df'" and
    d: "dropna df' [''Date'', ''Price''] = Inr df" by blast
  note f = before_dropna_Inr [OF b wf_DataFrame]
  have "df = loc df' (notna_mask (nrows df')
                 (map snd (filter (\<lambda>(l, s). l \<in> set [''Date'', ''Price'']) (cols df'))))"
    using d by (rule dropna_Inr)
  also have "notna_mask (nrows df')
                 (map snd (filter (\<lambda>(l, s). l \<in> set [''Date'', ''Price'']) (cols df')))
             = kept_rows L (normalize_columns (DataFrame data))"
    unfolding kept_rows_def using f(1) f(3) f(4) by (rule notna_mask_two)
  finally show ?thesis using b by blast
qed

lemma series_normalize_columns_not_empty:
  assumes "series (normalize_columns (DataFrame data)) c = Some s"
  shows "\<not> df_empty (DataFrame data)"
proof
  assume "df_empty (DataFrame data)"
  then have "cols (DataFrame data) = []" by (rule df_empty_DataFrame)
  then have "cols (normalize_columns (DataFrame data)) = []"
    by (simp add: normalize_columns_def Let_def set_columns_def drop_columns_def
        rename_columns_def columns_def)
  with assms show False by (simp add: series_def)
qed

lemma to_numeric_cases: "to_numeric s = NaN \<or> (\<exists>x. to_numeric s = Float x)"
  by (simp add: to_numeric_def Let_def)

lemma to_numeric_nonneg:
  assumes "CHR ''-'' \<notin> set s" "to_numeric s = Float x"
  shows "0 \<le> x"
proof -
  from assms(1) have "\<not> (case s of c # r \<Rightarrow> c = CHR ''-'' | [] \<Rightarrow> False)"
    by (cases s) auto
  with assms(2) show ?thesis
    by (auto simp: to_numeric_def Let_def split: if_splits)
qed

lemma keep_numeric_chars_subset: "set (keep_numeric_chars s) \<subseteq> set s"
  by (auto simp: keep_numeric_chars_def)

text \<open>
  Claim C3, as amended. Every row that survives \<open>load_sales_dataframe\<close> has a price that
  is a number: the value \<open>pd.to_numeric\<close> reads from the digits, dots and minus signs of
  a cell of the column \<open>Price\<close>. The price is greater than or equal to zero unless the
  text of that cell holds a minus sign: line 48 keeps minus signs, so a negative price
  survives.
\<close>

theorem load_sales_dataframe_price:
  assumes "load_sales_dataframe L data = Inr df" "series df ''Price'' = Some p" "c \<in> set p"
  shows "\<exists>raw x. raw \<in> set (raw_prices (normalize_columns (DataFrame data))) \<and>
           c = Float x \<and> to_numeric (keep_numeric_chars (astype_str L raw)) = Float x \<and>
           (0 \<le> x \<or> CHR ''-'' \<in> set (astype_str L raw))"
proof -
  let ?n = "normalize_columns (DataFrame data)"
  have ne: "\<not> df_empty (DataFrame data)"
  proof
    assume e: "df_empty (DataFrame data)"
    with assms(1) have "df = DataFrame data" by (simp add: load_sales_dataframe_def)
    with e assms(2) show False by (simp add: df_empty_DataFrame series_def)
  qed
  from load_sales_dataframe_loc [OF ne assms(1)] obtain df' where
    b: "before_dropna L (DataFrame data) = Inr df'" and
    df: "df = loc df' (kept_rows L ?n)" by blast
  note f = before_dropna_Inr [OF b wf_DataFrame]
  from assms(2) have p: "p = select (kept_rows L ?n) (price_column L ?n)"
    by (simp add: df series_loc f(4))
  have "(True, c) \<in> set (zip (kept_rows L ?n) (price_column L ?n))"
    using assms(3) by (simp add: p set_select)
  then obtain i where i: "i < length (kept_rows L ?n)" "i < length (price_column L ?n)"
    "kept_rows L ?n ! i" "price_column L ?n ! i = c"
    by (auto simp: set_zip)
  from i(1,3) have "price_column L ?n ! i \<noteq> NaN"
    by (simp add: kept_rows_def)
  with i(4) have cn: "c \<noteq> NaN" by simp
  from i(2,4) have mem: "c \<in> set (price_column L ?n)" by auto
  show ?thesis
  proof (cases "series ?n ''Price''")
    case None
    with mem cn show ?thesis by (simp add: price_column_def)
  next
    case (Some s)
    with mem obtain raw where raw: "raw \<in> set s"
      "c = to_numeric (keep_numeric_chars (astype_str L raw))"
      by (auto simp: price_column_def)
    with cn to_numeric_cases [of "keep_numeric_chars (astype_str L raw)"]
    obtain x where x: "to_numeric (keep_numeric_chars (astype_str L raw)) = Float x" by auto
    have "0 \<le> x \<or> CHR ''-'' \<in> set (astype_str L raw)"
      using to_numeric_nonneg [OF _ x] keep_numeric_chars_subset [of "astype_str L raw"] by auto
    with raw x Some show ?thesis by (auto simp: raw_prices_def)
  qed
qed

theorem load_sales_dataframe_price_witness:
  "load_sales_dataframe example_library example_rows = Inr example_table \<and>
   series example_table ''Price'' = Some [Float 10, Float 15] \<and>
   (\<exists>raw x. raw \<in> set (raw_prices (normalize_columns (DataFrame example_rows))) \<and>
      Float 10 = Float x \<and>
      to_numeric (keep_numeric_chars (astype_str example_library raw)) = Float x \<and>
      (0 \<le> x \<or> CHR ''-'' \<in> set (astype_str example_library raw)))"
proof -
  have e: "load_sales_dataframe example_library example_rows = Inr example_table"
    by code_simp
  have s: "series example_table ''Price'' = Some [Float 10, Float 15]"
    by (simp add: series_def example_table_def)
  have m: "Float 10 \<in> set [Float 10, Float 15]"
    by simp
  from e s load_sales_dataframe_price [OF e s m] show ?thesis by blast
qed

text \<open>
  The claim as stated fails on a record whose price is the text \<open>-5\<close>: the row survives
  with the price \<open>-5\<close>.
\<close>

theorem load_sales_dataframe_price_counterexample:
  "load_sales_dataframe example_library [[(''Date'', Str ''7/1/2025''), (''Price'', Str ''-5'')]]
   = Inr \<lparr>nrows = 1, cols = [(''Date'', [Timestamp 1751328000000000000]),
                               (''Price'', [Float (- 5)])]\<rparr> \<and>
   series \<lparr>nrows = 1, cols = [(''Date'', [Timestamp 1751328000000000000]),
                               (''Price'', [Float (- 5)])]\<rparr> ''Price'' = Some [Float (- 5)] \<and>
   \<not> (0::rat) \<le> - 5"
  by code_simp

subsection \<open>\<open>load_sales_dataframe\<close>: missing labels\<close>

lemma text_cell_NaN: "text_cell L NaN = Str ''nan''"
  by (simp add: text_cell_def astype_str_def strip_def is_space_def)

lemma load_sales_dataframe_text_column:
  assumes l: "load_sales_dataframe L data = Inr df"
    and c: "col = ''Barber Name'' \<or> col = ''Payment Method''"
    and r: "series (normalize_columns (DataFrame data)) col = Some raw"
  shows "series df col
         = Some (select (kept_rows L (normalize_columns (DataFrame data)))
                   (map (text_cell L) raw))"
proof -
  from r have ne: "\<not> df_empty (DataFrame data)" by (rule series_normalize_columns_not_empty)
  from load_sales_dataframe_loc [OF ne l] obtain df' where
    b: "before_dropna L (DataFrame data) = Inr df'" and
    df: "df = loc df' (kept_rows L (normalize_columns (DataFrame data)))" by blast
  note f = before_dropna_Inr [OF b wf_DataFrame]
  from c r have "series df' col = Some (map (text_cell L) raw)"
    using f(5) f(6) by auto
  then show ?thesis by (simp add: df series_loc)
qed

text \<open>
  Claim C10. Where the table has a column \<open>Barber Name\<close> or \<open>Payment Method\<close>, the
  column of the result holds, for the rows that are kept, the stripped text of each cell,
  and a missing cell has become the text \<open>nan\<close>, not the empty text. So \<open>nan\<close> can be
  a group label of \<open>by_barber\<close> or \<open>by_method\<close> and be reported by \<open>ai_insights\<close>: it
  is for \<open>unnamed_rows\<close>, whose first record has no barber.
\<close>

theorem load_sales_dataframe_missing_label:
  assumes "load_sales_dataframe L data = Inr df"
    and "col = ''Barber Name'' \<or> col = ''Payment Method''"
    and "series (normalize_columns (DataFrame data)) col = Some raw"
  shows "series df col
         = Some (select (kept_rows L (normalize_columns (DataFrame data)))
                   (map (\<lambda>c. if c = NaN then Str ''nan'' else text_cell L c) raw)) \<and>
         load_sales_dataframe example_library unnamed_rows = Inr unnamed_table \<and>
         compute_summaries unnamed_table = Inr unnamed_summaries \<and>
         by_barber unnamed_summaries = Some [(Str ''nan'', 20, 1), (Str ''Sam'', 15, 1)] \<and>
         snd (ai_insights example_library unnamed_table unnamed_summaries)
         = Inr [''Top performer: nan with OMR 20.00 across 1 cuts.'',
                ''Cash share: 57.1% (Cash OMR 20.00 vs Card OMR 15.00).'',
                ''Tuesdays are 0% slower than Tuesdays on average.'']"
proof (intro conjI)
  have "(\<lambda>c. if c = NaN then Str ''nan'' else text_cell L c) = text_cell L"
    by (auto simp: text_cell_NaN)
  then show "series df col
         = Some (select (kept_rows L (normalize_columns (DataFrame data)))
                   (map (\<lambda>c. if c = NaN then Str ''nan'' else text_cell L c) raw))"
    using load_sales_dataframe_text_column [OF assms] by simp
  show "load_sales_dataframe example_library unnamed_rows = Inr unnamed_table"
    by code_simp
  show "compute_summaries unnamed_table = Inr unnamed_summaries"
    by code_simp
  show "by_barber unnamed_summaries = Some [(Str ''nan'', 20, 1), (Str ''Sam'', 15, 1)]"
    by (simp add: unnamed_summaries_def)
  show "snd (ai_insights example_library unnamed_table unnamed_summaries)
         = Inr [''Top performer: nan with OMR 20.00 across 1 cuts.'',
                ''Cash share: 57.1% (Cash OMR 20.00 vs Card OMR 15.00).'',
                ''Tuesdays are 0% slower than Tuesdays on average.'']"
    by code_simp
qed

theorem load_sales_dataframe_missing_label_witness:
  "load_sales_dataframe example_library unnamed_rows = Inr unnamed_table \<and>
   series (normalize_columns (DataFrame unnamed_rows)) ''Barber Name'' = Some [NaN, Str ''Sam''] \<and>
   series unnamed_table ''Barber Name''
   = Some (select (kept_rows example_library (normalize_columns (DataFrame unnamed_rows)))
             (map (\<lambda>c. if c = NaN then Str ''nan'' else text_cell example_library c)
                  [NaN, Str ''Sam''])) \<and>
   series unnamed_table ''Barber Name'' = Some [Str ''nan'', Str ''Sam'']"
proof -
  have e: "load_sales_dataframe example_library unnamed_rows = Inr unnamed_table"
    by code_simp
  have c: "''Barber Name'' = ''Barber Name'' \<or> ''Barber Name'' = ''Payment Method''"
    by simp
  have r: "series (normalize_columns (DataFrame unnamed_rows)) ''Barber Name''
           = Some [NaN, Str ''Sam'']"
    by code_simp
  have s: "series unnamed_table ''Barber Name'' = Some [Str ''nan'', Str ''Sam'']"
    by code_simp
  from e r s load_sales_dataframe_missing_label [OF e c r] show ?thesis by blast
qed

subsection \<open>\<open>filter_by_period\<close>: a transaction with a time of day\<close>

text \<open>
  Claim C4 says that \<open>filter_by_period\<close> compares dates only, so that a transaction
  dated on the end date with a time of day is kept. The code compares the timestamp with
  the midnight of the end date: for the window from 2025-07-01 to 2025-07-01 (day 20270)
  the transaction of 2025-07-01 14:30 is dropped, while \<open>compute_summaries\<close> counts the
  same transaction under that day.
\<close>

theorem filter_by_period_end_date_afternoon:
  "filter_by_period afternoon_table ''Daily'' (PyDate 20270) (PyDate 20270)
   = Inr \<lparr>nrows = 0, cols = [(''Date'', []), (''Price'', [])]\<rparr> \<and>
   map_sum id by_day (compute_summaries afternoon_table) = Inr [(20270, 10)]"
  by code_simp

subsection \<open>What the calls change\<close>

lemma ai_insights_table:
  "fst (ai_insights L df summaries)
   = (if df_empty df then df
      else case datetime_series df of
             Inl e \<Rightarrow> df
           | Inr d \<Rightarrow> setitem df ''dow'' (map day_name d))"
  by (auto simp: ai_insights_def Let_def split: sum.splits option.splits)

text \<open>
  Claim C2, as amended. \<open>filter_by_period\<close> leaves every table as it is, the one it is
  given included, and returns a new table. \<open>ai_insights\<close> leaves every other table as
  it is; the table it is given is left unchanged when it is empty or when its dates
  cannot be read (the call raises before line 113), and otherwise its column \<open>dow\<close> is
  set to the day names of its dates: the table is not left unchanged.
\<close>

theorem calls_leave_tables:
  assumes "r < length st"
  shows "(\<forall>st' out. call_filter_by_period st r mode start_date end_date = (st', out) \<longrightarrow>
            take (length st) st' = st \<and>
            (\<forall>r'. out = Inr r' \<longrightarrow> r' = length st \<and> length st' = Suc (length st))) \<and>
         (\<forall>st' out. call_ai_insights L st r summaries = (st', out) \<longrightarrow>
            length st' = length st \<and>
            (\<forall>r'<length st. r' \<noteq> r \<longrightarrow> st' ! r' = st ! r') \<and>
            st' ! r = (if df_empty (st ! r) then st ! r
                       else case datetime_series (st ! r) of
                              Inl e \<Rightarrow> st ! r
                            | Inr d \<Rightarrow> setitem (st ! r) ''dow'' (map day_name d)))"
proof (intro conjI allI impI)
  fix st' out
  assume c: "call_filter_by_period st r mode start_date end_date = (st', out)"
  then show "take (length st) st' = st"
    by (auto simp: call_filter_by_period_def split: sum.splits)
  fix r'
  assume "out = Inr r'"
  with c show "r' = length st" "length st' = Suc (length st)"
    by (auto simp: call_filter_by_period_def split: sum.splits)
next
  fix st' out
  assume c: "call_ai_insights L st r summaries = (st', out)"
  then have st': "st' = st[r := fst (ai_insights L (st ! r) summaries)]"
    by (auto simp: call_ai_insights_def split: prod.splits)
  show "length st' = length st" by (simp add: st')
  show "st' ! r = (if df_empty (st ! r) then st ! r
                       else case datetime_series (st ! r) of
                              Inl e \<Rightarrow> st ! r
                            | Inr d \<Rightarrow> setitem (st ! r) ''dow'' (map day_name d))"
    using assms by (simp add: st' ai_insights_table)
  fix r'
  assume "r' < length st" "r' \<noteq> r"
  then show "st' ! r' = st ! r'" by (simp add: st')
qed

theorem calls_leave_tables_witness:
  "take (length [unnamed_table])
     (fst (call_filter_by_period [unnamed_table] 0 ''Daily'' (PyDate 20270) (PyDate 20270)))
   = [unnamed_table] \<and>
   fst (call_ai_insights example_library [unnamed_table] 0 unnamed_summaries) ! 0
   = setitem unnamed_table ''dow'' [Str ''Tuesday'', Str ''Tuesday''] \<and>
   setitem unnamed_table ''dow'' [Str ''Tuesday'', Str ''Tuesday''] \<noteq> unnamed_table"
proof -
  have h: "0 < length [unnamed_table]" by simp
  have e: "\<not> df_empty unnamed_table"
    by (simp add: df_empty_def unnamed_table_def)
  have d: "datetime_series unnamed_table
           = Inr [Timestamp 1751328000000000000, Timestamp 1751328000000000000]"
    by code_simp
  have n: "map day_name [Timestamp 1751328000000000000, Timestamp 1751328000000000000]
           = [Str ''Tuesday'', Str ''Tuesday'']"
    by code_simp
  have c: "setitem unnamed_table ''dow'' [Str ''Tuesday'', Str ''Tuesday''] \<noteq> unnamed_table"
    by code_simp
  have f: "call_filter_by_period [unnamed_table] 0 ''Daily'' (PyDate 20270) (PyDate 20270)
           = (fst (call_filter_by_period [unnamed_table] 0 ''Daily'' (PyDate 20270) (PyDate 20270)),
              snd (call_filter_by_period [unnamed_table] 0 ''Daily'' (PyDate 20270) (PyDate 20270)))"
    by simp
  have a: "call_ai_insights example_library [unnamed_table] 0 unnamed_summaries
           = (fst (call_ai_insights example_library [unnamed_table] 0 unnamed_summaries),
              snd (call_ai_insights example_library [unnamed_table] 0 unnamed_summaries))"
    by simp
  note t = calls_leave_tables [OF h, of "''Daily''" "PyDate 20270" "PyDate 20270"
      example_library unnamed_summaries]
  from t f have 1: "take (length [unnamed_table])
     (fst (call_filter_by_period [unnamed_table] 0 ''Daily'' (PyDate 20270) (PyDate 20270)))
     = [unnamed_table]" by blast
  from t a have "fst (call_ai_insights example_library [unnamed_table] 0 unnamed_summaries) ! 0
     = (if df_empty ([unnamed_table] ! 0) then [unnamed_table] ! 0
        else case datetime_series ([unnamed_table] ! 0) of
               Inl e \<Rightarrow> [unnamed_table] ! 0
             | Inr d \<Rightarrow> setitem ([unnamed_table] ! 0) ''dow'' (map day_name d))" by blast
  with e d n have 2: "fst (call_ai_insights example_library [unnamed_table] 0 unnamed_summaries) ! 0
     = setitem unnamed_table ''dow'' [Str ''Tuesday'', Str ''Tuesday'']" by simp
  from 1 2 c show ?thesis by blast
qed

text \<open>
  The claim as stated fails for \<open>ai_insights\<close> on a table with rows: after the call the
  table has the column \<open>dow\<close>.
\<close>

theorem calls_leave_tables_counterexample:
  "fst (call_ai_insights example_library [unnamed_table] 0 unnamed_summaries)
   \<noteq> [unnamed_table]"
  by code_simp

subsection \<open>\<open>compute_summaries\<close>: groups and totals\<close>

lemma sum_list_single_key:
  fixes x :: rat
  shows "distinct ks \<Longrightarrow> k0 \<in> set ks \<Longrightarrow> sum_list (map (\<lambda>k. if k0 = k then x else 0) ks) = x"
proof (induction ks)
  case Nil
  then show ?case by simp
next
  case (Cons k ks)
  show ?case
  proof (cases "k0 = k")
    case True
    with Cons.prems have "k0 \<notin> set ks" by simp
    then have "sum_list (map (\<lambda>k. if k0 = k then x else 0) ks) = 0"
      by (induction ks) auto
    with True show ?thesis by simp
  next
    case False
    with Cons show ?thesis by simp
  qed
qed

lemma members_Cons:
  "members k ((k0, v) # rows) = (if k0 = k then v # members k rows else members k rows)"
  by (simp add: members_def)

lemma sum_list_members:
  assumes "distinct ks" "fst ` set rows \<subseteq> set ks"
  shows "sum_list (map (\<lambda>k. sum_list (map number (members k rows))) ks)
         = sum_list (map (\<lambda>(k, v). number v) rows)"
  using assms(2)
proof (induction rows)
  case Nil
  then show ?case by (simp add: members_def)
next
  case (Cons r rows)
  obtain k0 v where r: "r = (k0, v)" by (cases r)
  with Cons.prems have k0: "k0 \<in> set ks" by simp
  have "sum_list (map (\<lambda>k. sum_list (map number (members k (r # rows)))) ks)
        = sum_list (map (\<lambda>k. (if k0 = k then number v else 0)
                                + sum_list (map number (members k rows))) ks)"
    unfolding r members_Cons by (rule arg_cong [where f = sum_list]) auto
  also have "\<dots> = sum_list (map (\<lambda>k. if k0 = k then number v else 0) ks)
                   + sum_list (map (\<lambda>k. sum_list (map number (members k rows))) ks)"
    by (simp add: sum_list_addf)
  also have "\<dots> = number v + sum_list (map (\<lambda>(k, v). number v) rows)"
    using Cons assms(1) k0 by (simp add: sum_list_single_key)
  finally show ?case by (simp add: r)
qed

lemma distinct_group_keys [simp]: "distinct (group_keys ks f)"
  by (simp add: group_keys_def)

lemma set_group_keys [simp]: "set (group_keys ks f) = set ks"
  by (simp add: group_keys_def)

lemma sorted_group_keys: "sorted (map f (group_keys ks f))"
  by (simp add: group_keys_def)

lemma sum_list_insort_key:
  fixes f :: "'a \<Rightarrow> rat"
  shows "sum_list (map f (insort_key k x xs)) = f x + sum_list (map f xs)"
  by (induction xs) auto

lemma sum_list_sort_key:
  fixes f :: "'a \<Rightarrow> rat"
  shows "sum_list (map f (sort_key k xs)) = sum_list (map f xs)"
  by (induction xs) (auto simp: sum_list_insort_key)

lemma sum_list_sort_values_desc:
  "sum_list (map revenue (sort_values_desc gs)) = sum_list (map revenue gs)"
  by (simp add: sort_values_desc_def sum_list_sort_key rev_map [symmetric] del: rev_map)

lemma set_sort_values_desc [simp]: "set (sort_values_desc gs) = set gs"
  by (simp add: sort_values_desc_def)

lemma revenue_groupby_sum_count:
  "sum_list (map revenue (groupby_sum_count ks vs)) = revenue_where (\<lambda>k. k \<noteq> NaN) ks vs"
proof -
  let ?rows = "notna_rows (zip ks vs)"
  have "sum_list (map revenue (groupby_sum_count ks vs))
        = sum_list (map (\<lambda>k. sum_list (map number (members k ?rows)))
                        (group_keys (map fst ?rows) cell_key))"
    by (simp add: groupby_sum_count_def Let_def revenue_def comp_def)
  also have "\<dots> = sum_list (map (\<lambda>(k, v). number v) ?rows)"
    by (rule sum_list_members) auto
  finally show ?thesis by (simp add: revenue_where_def notna_rows_def)
qed

lemma grouped_by_Inr_Some:
  "grouped_by df label = Inr (Some g) \<longleftrightarrow>
   (\<exists>ks p. series df label = Some ks \<and> price_series df = Inr p \<and>
            g = sort_values_desc (groupby_sum_count ks p))"
  using series_in_columns [of df label]
  by (auto simp: grouped_by_def and_then_Inr split: option.splits)

lemma grouped_by_Inr_None:
  "grouped_by df label = Inr None \<longleftrightarrow> label \<notin> set (columns df)"
  by (auto simp: grouped_by_def and_then_Inr split: option.splits)

lemma compute_summaries_Inr:
  assumes "compute_summaries df = Inr s"
  shows "\<exists>p d. price_series df = Inr p \<and> datetime_series df = Inr d \<and>
               total_revenue s = (if df_empty df then 0 else sum_list (map number p)) \<and>
               num_transactions s = nrows df \<and>
               grouped_by df ''Barber Name'' = Inr (by_barber s) \<and>
               grouped_by df ''Payment Method'' = Inr (by_method s) \<and>
               by_day s = groupby_day_sum d p"
  using assms unfolding compute_summaries_def and_then_Inr
  by (auto simp: and_then_def split: if_splits)

lemma price_series_Inr:
  "price_series df = Inr p \<Longrightarrow> series df ''Price'' = Some p \<and> list_all is_numeric p"
  by (auto simp: price_series_def split: if_splits option.splits)

lemma sum_list_zip_snd:
  "length ks = length vs \<Longrightarrow> sum_list (map (\<lambda>(k, v). f v) (zip ks vs)) = sum_list (map f vs)"
  by (induction ks vs rule: list_induct2) auto

lemma revenue_where_all:
  assumes "length ks = length vs" "NaN \<notin> set ks"
  shows "revenue_where (\<lambda>k. k \<noteq> NaN) ks vs = sum_list (map number vs)"
proof -
  have "filter (\<lambda>(k, v). k \<noteq> NaN) (zip ks vs) = zip ks vs"
    using assms(2) by (auto simp: filter_id_conv dest: set_zip_leftD)
  then show ?thesis
    using assms(1) by (simp add: revenue_where_def sum_list_zip_snd)
qed

text \<open>
  With exact sums, as in this model: for a table in which no cell of the column
  \<open>Barber Name\<close> is missing, the revenues of the groups of \<open>by_barber\<close> add up to
  \<open>total_revenue\<close> of the same report. The program adds IEEE doubles, and adds them for
  the groups in another order than for the total, so its two results can differ in the
  last digits: the equality of claim C9, which is one of the program's floats, is not
  stated by this lemma.
\<close>

lemma exact_by_barber_total:
  assumes "wf df" "compute_summaries df = Inr s"
    and "series df ''Barber Name'' = Some ks" "NaN \<notin> set ks"
  shows "\<exists>g. by_barber s = Some g \<and> sum_list (map revenue g) = total_revenue s"
proof -
  from compute_summaries_Inr [OF assms(2)] obtain p where
    p: "price_series df = Inr p" and
    t: "total_revenue s = (if df_empty df then 0 else sum_list (map number p))" and
    b: "grouped_by df ''Barber Name'' = Inr (by_barber s)" by blast
  from assms(3) have "''Barber Name'' \<in> set (columns df)" by (rule series_in_columns)
  with b obtain g where g: "by_barber s = Some g"
    by (cases "by_barber s") (auto simp: grouped_by_Inr_None)
  with b assms(3) p have gs: "g = sort_values_desc (groupby_sum_count ks p)"
    by (auto simp: grouped_by_Inr_Some)
  from p have sp: "series df ''Price'' = Some p" by (simp add: price_series_Inr)
  from assms(1,3) sp have len: "length ks = nrows df" "length p = nrows df"
    by (auto dest: wf_series_length)
  have "sum_list (map revenue g) = sum_list (map number p)"
    using len assms(4)
    by (simp add: gs sum_list_sort_values_desc revenue_groupby_sum_count revenue_where_all)
  moreover have "df_empty df \<Longrightarrow> sum_list (map number p) = 0"
  proof -
    assume "df_empty df"
    moreover from sp have "cols df \<noteq> []" by (auto dest: series_mem)
    ultimately have "nrows df = 0" by (simp add: df_empty_def)
    with len show ?thesis by simp
  qed
  ultimately show ?thesis using g t by auto
qed

subsection \<open>\<open>compute_summaries\<close>: the order of the groups\<close>

lemma sort_values_desc_sorted:
  "sorted_wrt (\<lambda>a b. revenue b \<le> revenue a) (sort_values_desc gs)"
proof -
  have "sorted (map revenue (sort_key revenue (rev gs)))"
    by (rule sorted_sort_key)
  then have "sorted_wrt (\<lambda>a b. revenue a \<le> revenue b) (sort_key revenue (rev gs))"
    by (simp add: sorted_map)
  then show ?thesis
    by (simp add: sort_values_desc_def sorted_wrt_rev)
qed

lemma map_fst_groupby_sum_count:
  "map fst (groupby_sum_count ks vs)
   = group_keys (map fst (notna_rows (zip ks vs))) cell_key"
  by (simp add: groupby_sum_count_def Let_def comp_def)

lemma distinct_map_fst_sort_key:
  "distinct (map g (sort_key f xs)) = distinct (map g xs)"
  by (simp add: distinct_map)

lemma distinct_labels_sort_values_desc:
  "distinct (map fst (sort_values_desc gs)) = distinct (map fst gs)"
  by (simp add: sort_values_desc_def distinct_map)

lemma ranked_grouped_by:
  assumes "grouped_by df label = Inr (Some g)"
  shows "ranked g"
proof -
  from assms obtain ks p where g: "g = sort_values_desc (groupby_sum_count ks p)"
    by (auto simp: grouped_by_Inr_Some)
  show ?thesis
    unfolding ranked_def g
    by (simp add: sort_values_desc_sorted distinct_labels_sort_values_desc
        map_fst_groupby_sum_count)
qed

text \<open>
  Claim C6, as amended. The tables \<open>by_barber\<close> and \<open>by_method\<close> are sorted by group
  revenue in descending order, and no label stands twice. Nothing is stated of the order
  among groups of equal revenue: it is not the order in which the labels are first seen.
\<close>

theorem compute_summaries_ranked:
  assumes "compute_summaries df = Inr s"
  shows "(\<forall>g. by_barber s = Some g \<longrightarrow> ranked g) \<and> (\<forall>g. by_method s = Some g \<longrightarrow> ranked g)"
proof -
  from compute_summaries_Inr [OF assms] have
    "grouped_by df ''Barber Name'' = Inr (by_barber s)"
    "grouped_by df ''Payment Method'' = Inr (by_method s)" by auto
  then show ?thesis by (auto intro: ranked_grouped_by)
qed

theorem compute_summaries_ranked_witness:
  "compute_summaries example_table = Inr example_summaries \<and>
   ranked [(Str ''Sam'', 15, 1), (Str ''nan'', 10, 1)] \<and>
   ranked [(Str ''Card'', 15, 1), (Str ''Cash'', 10, 1)]"
proof -
  have c: "compute_summaries example_table = Inr example_summaries"
    by code_simp
  have b: "by_barber example_summaries = Some [(Str ''Sam'', 15, 1), (Str ''nan'', 10, 1)]"
    and m: "by_method example_summaries = Some [(Str ''Card'', 15, 1), (Str ''Cash'', 10, 1)]"
    by (simp_all add: example_summaries_def)
  from c b m compute_summaries_ranked [OF c] show ?thesis by blast
qed

text \<open>
  The claim as stated fails on ties. \<open>tie_table\<close> and \<open>tie_table_swapped\<close> hold the same
  two transactions of revenue 10, of \<open>Zed\<close> and of \<open>Al\<close>, in the two orders. \<open>groupby\<close>
  forms the groups in the order of the labels, so the two tables have the same
  \<open>by_barber\<close>, whatever the sort does with the tie; the labels are first seen in opposite
  orders, so \<open>by_barber\<close> is in first-seen order for at most one of the two.
\<close>

theorem compute_summaries_ranked_counterexample:
  "series tie_table ''Barber Name'' = Some [Str ''Zed'', Str ''Al''] \<and>
   series tie_table_swapped ''Barber Name'' = Some [Str ''Al'', Str ''Zed''] \<and>
   map_sum id by_barber (compute_summaries tie_table)
   = map_sum id by_barber (compute_summaries tie_table_swapped) \<and>
   \<not> (by_barber_first_seen tie_table \<and> by_barber_first_seen tie_table_swapped)"
  by code_simp

subsection \<open>\<open>compute_summaries\<close>: which grouped tables the report has\<close>







lemma sort_values_desc_Nil_iff [simp]: "sort_values_desc gs = [] \<longleftrightarrow> gs = []"
proof -
  have "length (sort_values_desc gs) = length gs"
    by (simp add: sort_values_desc_def)
  then show ?thesis by (metis length_0_conv)
qed






subsection \<open>\<open>ai_insights\<close>: the share of cash\<close>

lemma sum_members:
  "sum_list (map number (members k rows))
   = sum_list (map (\<lambda>(k, v). number v) (filter (\<lambda>(k', v). k' = k) rows))"
  by (simp add: members_def comp_def case_prod_unfold)

lemma map_of_groupby_sum_count:
  "map_of (groupby_sum_count ks p) k
   = (let rows = notna_rows (zip ks p) in
      if k \<in> fst ` set rows
      then Some (sum_list (map number (members k rows)),
                 length (filter (\<lambda>v. v \<noteq> NaN) (members k rows)))
      else None)"
  by (simp add: groupby_sum_count_def Let_def map_of_map_restrict restrict_map_def)

lemma members_absent: "k \<notin> fst ` set rows \<Longrightarrow> members k rows = []"
  by (auto simp: members_def filter_empty_conv intro: rev_image_eqI)

lemma distinct_labels_groupby_sum_count: "distinct (map fst (groupby_sum_count ks p))"
  by (simp add: map_fst_groupby_sum_count)

lemma map_of_sort_values_desc:
  assumes "distinct (map fst gs)"
  shows "map_of (sort_values_desc gs) = map_of gs"
proof -
  have "distinct (map fst (sort_values_desc gs))"
    using assms by (simp add: distinct_labels_sort_values_desc)
  then show ?thesis
    using assms by (simp add: map_of_inject_set)
qed

lemma cash_of_grouped:
  "cash_of (sort_values_desc (groupby_sum_count ks p))
   = revenue_where (\<lambda>k. k = Str ''Cash'') ks p"
proof -
  let ?rows = "notna_rows (zip ks p)"
  have "cash_of (sort_values_desc (groupby_sum_count ks p))
        = sum_list (map number (members (Str ''Cash'') ?rows))"
    by (simp add: cash_of_def map_of_sort_values_desc distinct_labels_groupby_sum_count
        map_of_groupby_sum_count Let_def members_absent)
  also have "\<dots> = sum_list (map (\<lambda>(k, v). number v)
                       (filter (\<lambda>(k, v). k = Str ''Cash'') ?rows))"
    by (rule sum_members)
  also have "filter (\<lambda>(k, v). k = Str ''Cash'') ?rows
             = filter (\<lambda>(k, v). k = Str ''Cash'') (zip ks p)"
    unfolding notna_rows_def by (auto intro: filter_cong)
  finally show ?thesis by (simp add: revenue_where_def)
qed

lemma sum_list_filter_split:
  fixes f :: "'a \<Rightarrow> rat"
  shows "sum_list (map f (filter P xs))
         = sum_list (map f (filter (\<lambda>x. P x \<and> Q x) xs))
           + sum_list (map f (filter (\<lambda>x. P x \<and> \<not> Q x) xs))"
  by (induction xs) auto

lemma revenue_where_split:
  "revenue_where P ks p
   = revenue_where (\<lambda>k. P k \<and> Q k) ks p + revenue_where (\<lambda>k. P k \<and> \<not> Q k) ks p"
proof -
  have "sum_list (map (\<lambda>(k, v). number v) (filter (\<lambda>(k, v). P k) (zip ks p)))
        = sum_list (map (\<lambda>(k, v). number v)
            (filter (\<lambda>x. (case x of (k, v) \<Rightarrow> P k) \<and> (case x of (k, v) \<Rightarrow> Q k)) (zip ks p)))
          + sum_list (map (\<lambda>(k, v). number v)
            (filter (\<lambda>x. (case x of (k, v) \<Rightarrow> P k) \<and> \<not> (case x of (k, v) \<Rightarrow> Q k)) (zip ks p)))"
    by (rule sum_list_filter_split)
  then show ?thesis
    by (simp add: revenue_where_def case_prod_unfold)
qed

lemma card_of_grouped:
  "card_of (sort_values_desc (groupby_sum_count ks p))
   = revenue_where (\<lambda>k. k \<noteq> NaN \<and> k \<noteq> Str ''Cash'') ks p"
proof -
  have "revenue_where (\<lambda>k. k \<noteq> NaN \<and> k = Str ''Cash'') ks p
        = revenue_where (\<lambda>k. k = Str ''Cash'') ks p"
    by (rule arg_cong [where f = "\<lambda>P. revenue_where P ks p"]) auto
  then show ?thesis
    using revenue_where_split [of "\<lambda>k. k \<noteq> NaN" ks p "\<lambda>k. k = Str ''Cash''"]
    by (simp add: card_of_def cash_of_grouped sum_list_sort_values_desc
        revenue_groupby_sum_count)
qed

lemma groupby_sum_count_Nil_iff:
  assumes "length ks = length p"
  shows "groupby_sum_count ks p = [] \<longleftrightarrow> \<not> list_ex (\<lambda>k. k \<noteq> NaN) ks"
proof -
  have "group_keys (map fst (notna_rows (zip ks p))) cell_key = []
        \<longleftrightarrow> set (map fst (notna_rows (zip ks p))) = {}"
    by (metis set_group_keys set_empty)
  then have "groupby_sum_count ks p = [] \<longleftrightarrow> notna_rows (zip ks p) = []"
    by (simp add: groupby_sum_count_def Let_def)
  also have "\<dots> \<longleftrightarrow> (\<forall>k\<in>set (map fst (zip ks p)). k = NaN)"
    by (auto simp: notna_rows_def filter_empty_conv)
  also have "map fst (zip ks p) = ks"
    using assms by (rule map_fst_zip)
  finally show ?thesis by (auto simp: list_ex_iff)
qed

lemma ai_insights_list:
  assumes "snd (ai_insights L df s) = Inr ins" "\<not> df_empty df"
  shows "\<exists>dow. ins = top_performer L s @ cash_share L s @ dow"
  using assms
  by (auto simp: ai_insights_def Let_def split: sum.splits option.splits)

text \<open>
  Claim C7, as amended. For the report of a table, the sentence on the share of cash is
  produced if and only if some row has a payment method (\<open>by_method\<close> is not empty) and
  the amount of cash or the amount of the rest is not zero. The amount of cash is the
  revenue of the rows whose payment method is exactly \<open>Cash\<close> (0 without such a row), the
  amount of the rest is the revenue of the rows with any other payment method, and the
  share is cash / (cash + rest) * 100 when the two do not add up to zero, and 0 when they
  do. Where \<open>ai_insights\<close> returns for a table that is not empty, the sentence stands
  after the top performer and before the trend of the days. With every payment by card
  and a positive revenue the sentence reports a share of 0.
\<close>

theorem cash_share_of_table:
  assumes "wf df" "compute_summaries df = Inr s"
  shows "cash_share L s
         = (case series df ''Payment Method'' of
              None \<Rightarrow> []
            | Some ks \<Rightarrow>
                let cash = revenue_where (\<lambda>k. k = Str ''Cash'') ks (raw_prices df);
                    card = revenue_where (\<lambda>k. k \<noteq> NaN \<and> k \<noteq> Str ''Cash'') ks (raw_prices df)
                in if list_ex (\<lambda>k. k \<noteq> NaN) ks \<and> (cash \<noteq> 0 \<or> card \<noteq> 0)
                   then [''Cash share: ''
                           @ fmt_f L 1 False
                               (if cash + card \<noteq> 0 then cash / (cash + card) * 100 else 0)
                           @ ''% (Cash '' @ format_currency L cash
                           @ '' vs Card '' @ format_currency L card @ '').'']
                   else []) \<and>
         (\<forall>ins. snd (ai_insights L df s) = Inr ins \<and> \<not> df_empty df \<longrightarrow>
            (\<exists>dow. ins = top_performer L s @ cash_share L s @ dow))"
proof (intro conjI allI impI)
  from compute_summaries_Inr [OF assms(2)] obtain p where
    p: "price_series df = Inr p" and
    m: "grouped_by df ''Payment Method'' = Inr (by_method s)" by blast
  from p have sp: "series df ''Price'' = Some p" by (simp add: price_series_Inr)
  then have rp: "raw_prices df = p" by (simp add: raw_prices_def)
  show "cash_share L s
         = (case series df ''Payment Method'' of
              None \<Rightarrow> []
            | Some ks \<Rightarrow>
                let cash = revenue_where (\<lambda>k. k = Str ''Cash'') ks (raw_prices df);
                    card = revenue_where (\<lambda>k. k \<noteq> NaN \<and> k \<noteq> Str ''Cash'') ks (raw_prices df)
                in if list_ex (\<lambda>k. k \<noteq> NaN) ks \<and> (cash \<noteq> 0 \<or> card \<noteq> 0)
                   then [''Cash share: ''
                           @ fmt_f L 1 False
                               (if cash + card \<noteq> 0 then cash / (cash + card) * 100 else 0)
                           @ ''% (Cash '' @ format_currency L cash
                           @ '' vs Card '' @ format_currency L card @ '').'']
                   else [])"
  proof (cases "series df ''Payment Method''")
    case None
    have "by_method s = None"
    proof (cases "by_method s")
      case (Some g)
      with m None show ?thesis by (auto simp: grouped_by_Inr_Some)
    qed simp
    with None show ?thesis by (simp add: cash_share_def)
  next
    case (Some ks)
    then have "''Payment Method'' \<in> set (columns df)" by (rule series_in_columns)
    with m obtain g where g: "by_method s = Some g"
      by (cases "by_method s") (auto simp: grouped_by_Inr_None)
    with m Some p have gs: "g = sort_values_desc (groupby_sum_count ks p)"
      by (auto simp: grouped_by_Inr_Some)
    have "length ks = length p"
      using wf_series_length [OF assms(1) Some] wf_series_length [OF assms(1) sp] by simp
    then have e: "g = [] \<longleftrightarrow> \<not> list_ex (\<lambda>k. k \<noteq> NaN) ks"
      by (simp add: gs groupby_sum_count_Nil_iff)
    have c: "cash_of g = revenue_where (\<lambda>k. k = Str ''Cash'') ks p"
      and d: "card_of g = revenue_where (\<lambda>k. k \<noteq> NaN \<and> k \<noteq> Str ''Cash'') ks p"
      by (simp_all add: gs cash_of_grouped card_of_grouped)
    show ?thesis
      by (simp add: Some g cash_share_def cash_share_text_def Let_def e c d rp)
  qed
next
  fix ins
  assume "snd (ai_insights L df s) = Inr ins \<and> \<not> df_empty df"
  then show "\<exists>dow. ins = top_performer L s @ cash_share L s @ dow"
    by (auto intro: ai_insights_list)
qed

theorem cash_share_of_table_witness:
  "wf card_table \<and> compute_summaries card_table = Inr card_summaries \<and>
   \<not> df_empty card_table \<and>
   cash_share example_library card_summaries
   = [''Cash share: 0.0% (Cash OMR 0.00 vs Card OMR 25.00).''] \<and>
   snd (ai_insights example_library card_table card_summaries)
   = Inr [''Cash share: 0.0% (Cash OMR 0.00 vs Card OMR 25.00).'',
          ''Tuesdays are 0% slower than Tuesdays on average.''] \<and>
   (\<exists>dow. [''Cash share: 0.0% (Cash OMR 0.00 vs Card OMR 25.00).'',
            ''Tuesdays are 0% slower than Tuesdays on average.'']
          = top_performer example_library card_summaries
            @ cash_share example_library card_summaries @ dow)"
proof -
  let ?rhs = "case series card_table ''Payment Method'' of
              None \<Rightarrow> []
            | Some ks \<Rightarrow>
                let cash = revenue_where (\<lambda>k. k = Str ''Cash'') ks (raw_prices card_table);
                    card = revenue_where (\<lambda>k. k \<noteq> NaN \<and> k \<noteq> Str ''Cash'') ks
                             (raw_prices card_table)
                in if list_ex (\<lambda>k. k \<noteq> NaN) ks \<and> (cash \<noteq> 0 \<or> card \<noteq> 0)
                   then [''Cash share: ''
                           @ fmt_f example_library 1 False
                               (if cash + card \<noteq> 0 then cash / (cash + card) * 100 else 0)
                           @ ''% (Cash '' @ format_currency example_library cash
                           @ '' vs Card '' @ format_currency example_library card @ '').'']
                   else []"
  have w: "wf card_table"
    by (simp add: wf_def card_table_def)
  have c: "compute_summaries card_table = Inr card_summaries"
    by code_simp
  have e: "\<not> df_empty card_table"
    by (simp add: df_empty_def card_table_def)
  have r: "?rhs = [''Cash share: 0.0% (Cash OMR 0.00 vs Card OMR 25.00).'']"
    by code_simp
  have i: "snd (ai_insights example_library card_table card_summaries)
           = Inr [''Cash share: 0.0% (Cash OMR 0.00 vs Card OMR 25.00).'',
                  ''Tuesdays are 0% slower than Tuesdays on average.'']"
    by code_simp
  note t = cash_share_of_table [OF w c, of example_library]
  from t have "cash_share example_library card_summaries = ?rhs" by (rule conjunct1)
  with r have 1: "cash_share example_library card_summaries
                  = [''Cash share: 0.0% (Cash OMR 0.00 vs Card OMR 25.00).'']" by simp
  from t i e have 2: "\<exists>dow. [''Cash share: 0.0% (Cash OMR 0.00 vs Card OMR 25.00).'',
            ''Tuesdays are 0% slower than Tuesdays on average.'']
          = top_performer example_library card_summaries
            @ cash_share example_library card_summaries @ dow" by blast
  from w c e 1 i 2 show ?thesis by blast
qed

text \<open>
  The claim as stated fails where the two amounts are not zero and add up to zero: a
  payment of 5 in cash and a refund of 5 by card give a total of 0, and the sentence is
  produced, with a share of 0.
\<close>

theorem cash_share_of_table_counterexample:
  "map_sum id total_revenue (compute_summaries offset_table) = Inr 0 \<and>
   map_sum id (cash_share example_library) (compute_summaries offset_table)
   = Inr [''Cash share: 0.0% (Cash OMR 5.00 vs Card OMR -5.00).'']"
  by code_simp

end
